theory Spec2Isabelle
  imports Main "HOL-Library.Word"
begin

section \<open>CHORM: query builder, aggregate and window builders, mapper\<close>

text \<open>
  A shallow embedding of the statement-composition and record-marshalling code of the
  CHORM package: the \<open>Query\<close> builder, the \<open>Aggregate\<close> and \<open>Window\<close> builders and the
  \<open>Mapper\<close>. Go methods that mutate their receiver take the receiver and return the
  updated one. Functions of Go's standard library (\<open>strings\<close>, \<open>fmt\<close>, \<open>strconv\<close>,
  \<open>reflect\<close>, \<open>database/sql\<close>) are modelled from their documentation where the model
  needs their result, and taken as parameters otherwise.
\<close>

subsection \<open>Strings: the functions of package strings and the verbs of fmt that the code uses\<close>

text \<open>\<open>strings.Join(elems, sep)\<close>.\<close>

fun strings_Join :: "string list \<Rightarrow> string \<Rightarrow> string" where
  "strings_Join [] sep = []"
| "strings_Join [x] sep = x"
| "strings_Join (x # y # ys) sep = x @ sep @ strings_Join (y # ys) sep"

text \<open>\<open>strings.HasPrefix(s, p)\<close>, \<open>strings.Contains(s, substr)\<close> and
  \<open>strings.Replace(s, old, new, 1)\<close>, which replaces the first occurrence only.\<close>

fun strings_HasPrefix :: "string \<Rightarrow> string \<Rightarrow> bool" where
  "strings_HasPrefix s [] = True"
| "strings_HasPrefix [] (p # ps) = False"
| "strings_HasPrefix (c # cs) (p # ps) = (c = p \<and> strings_HasPrefix cs ps)"

fun strings_Contains :: "string \<Rightarrow> string \<Rightarrow> bool" where
  "strings_Contains [] sub = (sub = [])"
| "strings_Contains (c # cs) sub =
     (strings_HasPrefix (c # cs) sub \<or> strings_Contains cs sub)"

fun strings_Replace1 :: "string \<Rightarrow> string \<Rightarrow> string \<Rightarrow> string" where
  "strings_Replace1 [] old new = (if old = [] then new else [])"
| "strings_Replace1 (c # cs) old new =
     (if strings_HasPrefix (c # cs) old then new @ drop (length old) (c # cs)
      else c # strings_Replace1 cs old new)"

text \<open>
  \<open>strings.ToUpper\<close> and \<open>strings.ToLower\<close> on ASCII text: the 26 letters are mapped,
  every other byte is kept. Go's functions also map the letters outside ASCII, of which
  the model has no table; for a text with such a letter the model keeps its bytes. The
  code applies them to the direction of \<open>OrderBy\<close> and to the name of a struct type.
\<close>

definition upper_char :: "char \<Rightarrow> char" where
  "upper_char c =
     (case map_of (zip ''abcdefghijklmnopqrstuvwxyz'' ''ABCDEFGHIJKLMNOPQRSTUVWXYZ'') c of
        Some u \<Rightarrow> u | None \<Rightarrow> c)"

definition lower_char :: "char \<Rightarrow> char" where
  "lower_char c =
     (case map_of (zip ''ABCDEFGHIJKLMNOPQRSTUVWXYZ'' ''abcdefghijklmnopqrstuvwxyz'') c of
        Some l \<Rightarrow> l | None \<Rightarrow> c)"

definition strings_ToUpper :: "string \<Rightarrow> string" where
  "strings_ToUpper s = map upper_char s"

definition strings_ToLower :: "string \<Rightarrow> string" where
  "strings_ToLower s = map lower_char s"

text \<open>The verb \<open>%d\<close> of \<open>fmt.Sprintf\<close> on a Go \<open>int\<close>: the decimal digits, with a minus
  sign for a negative number.\<close>

definition digit_char :: "nat \<Rightarrow> char" where
  "digit_char d = ''0123456789'' ! (d mod 10)"

fun digits :: "nat \<Rightarrow> string" where
  "digits n = (if n < 10 then [digit_char n] else digits (n div 10) @ [digit_char n])"

declare digits.simps [simp del]

definition Sprintf_d :: "int \<Rightarrow> string" where
  "Sprintf_d i = (if i < 0 then CHR ''-'' # digits (nat (- i)) else digits (nat i))"

text \<open>The verb \<open>%f\<close> on a \<open>float64\<close>, given by its IEEE 754 bits: six digits after the
  decimal point, the exact binary value rounded to the nearest decimal, ties to even.\<close>

definition round_half_even :: "nat \<Rightarrow> nat \<Rightarrow> nat" where
  "round_half_even n d =
     (let q = n div d; r = n mod d
      in if d < 2 * r \<or> (2 * r = d \<and> odd q) then q + 1 else q)"

definition pad_left :: "nat \<Rightarrow> string \<Rightarrow> string" where
  "pad_left w s = replicate (w - length s) (CHR ''0'') @ s"

definition Sprintf_f :: "64 word \<Rightarrow> string" where
  "Sprintf_f w =
     (let b = unat w;
          neg = (2 ^ 63 \<le> b);
          e = (b div 2 ^ 52) mod 2048;
          m = b mod 2 ^ 52
      in if e = 2047 then (if m \<noteq> 0 then ''NaN'' else if neg then ''-Inf'' else ''+Inf'')
         else
           let mant = (if e = 0 then m else m + 2 ^ 52);
               ex = (if e = 0 then 1 else e);
               scaled = (if 1075 \<le> ex then mant * 2 ^ (ex - 1075) * 1000000
                         else round_half_even (mant * 1000000) (2 ^ (1075 - ex)))
           in (if neg then ''-'' else '''') @ digits (scaled div 1000000) @ ''.''
              @ pad_left 6 (digits (scaled mod 1000000)))"

text \<open>A \<open>float64\<close> is finite when its exponent is not the one of \<open>NaN\<close> and the
  infinities.\<close>

definition finite_float64 :: "64 word \<Rightarrow> bool" where
  "finite_float64 w \<longleftrightarrow> (unat w div 2 ^ 52) mod 2048 \<noteq> 2047"

subsection \<open>Go values as the code sees them\<close>

text \<open>
  A value of type \<open>interface{}\<close> is \<open>nil\<close> or a dynamic type with a payload. A type is
  given by what \<open>reflect.Type\<close> answers: \<open>String()\<close>, \<open>Kind()\<close> and, for a slice or an
  array, \<open>Elem()\<close>. The kinds \<open>Slice\<close> and \<open>Array\<close> are the constructors \<open>GoSlice\<close> and
  \<open>GoArray\<close>; \<open>KOther\<close> stands for every kind the code has no case for. An integer
  payload is the number itself, within the range of its type (Go's \<open>int\<close> and \<open>uint\<close>
  have 64 bits); a float payload is its IEEE 754 bits.
\<close>

datatype kind =
  KBool | KInt | KInt8 | KInt16 | KInt32 | KInt64
  | KUint | KUint8 | KUint16 | KUint32 | KUint64
  | KFloat32 | KFloat64 | KString | KStruct | KOther

datatype gtype =
  GoType string kind
  | GoSlice string gtype
  | GoArray string gtype

datatype payload =
  PBool bool | PInt int | PFloat32 "32 word" | PFloat64 "64 word" | PString string
  | POther nat

datatype gval = NilValue | Val gtype payload

definition t_bool :: gtype where "t_bool = GoType ''bool'' KBool"
definition t_int :: gtype where "t_int = GoType ''int'' KInt"
definition t_int8 :: gtype where "t_int8 = GoType ''int8'' KInt8"
definition t_int16 :: gtype where "t_int16 = GoType ''int16'' KInt16"
definition t_int32 :: gtype where "t_int32 = GoType ''int32'' KInt32"
definition t_int64 :: gtype where "t_int64 = GoType ''int64'' KInt64"
definition t_uint8 :: gtype where "t_uint8 = GoType ''uint8'' KUint8"
definition t_uint16 :: gtype where "t_uint16 = GoType ''uint16'' KUint16"
definition t_uint32 :: gtype where "t_uint32 = GoType ''uint32'' KUint32"
definition t_uint64 :: gtype where "t_uint64 = GoType ''uint64'' KUint64"
definition t_float32 :: gtype where "t_float32 = GoType ''float32'' KFloat32"
definition t_float64 :: gtype where "t_float64 = GoType ''float64'' KFloat64"
definition t_string :: gtype where "t_string = GoType ''string'' KString"

text \<open>A function either returns or panics; a Go \<open>error\<close> is \<open>None\<close> for \<open>nil\<close> and its
  message otherwise.\<close>

datatype 'a outcome = Return 'a | Panic string

subsection \<open>Query builder\<close>

text \<open>The struct \<open>Query\<close>, its fields with the prefix \<open>q_\<close>. The pointer \<open>db\<close> is the
  connection that the terminal operations take as an argument.\<close>

record Query =
  q_table :: string
  q_selects :: "string list"
  q_wheres :: "string list"
  q_groupBy :: "string list"
  q_orderBy :: "string list"
  q_limit :: int
  q_offset :: int
  q_args :: "gval list"
  q_distinct :: bool
  q_having :: "string list"
  q_joins :: "string list"

definition NewQuery :: Query where
  "NewQuery =
     \<lparr>q_table = '''', q_selects = [''*''], q_wheres = [], q_groupBy = [], q_orderBy = [],
      q_limit = 0, q_offset = 0, q_args = [], q_distinct = False, q_having = [],
      q_joins = []\<rparr>"

definition Query_Table :: "string \<Rightarrow> Query \<Rightarrow> Query" where
  "Query_Table table q = q\<lparr>q_table := table\<rparr>"

definition Query_Select :: "string list \<Rightarrow> Query \<Rightarrow> Query" where
  "Query_Select flds q = (if length flds > 0 then q\<lparr>q_selects := flds\<rparr> else q)"

definition Query_Distinct :: "Query \<Rightarrow> Query" where
  "Query_Distinct q = q\<lparr>q_distinct := True\<rparr>"

definition Query_Where :: "string \<Rightarrow> gval list \<Rightarrow> Query \<Rightarrow> Query" where
  "Query_Where condition args q =
     q\<lparr>q_wheres := q_wheres q @ [condition], q_args := q_args q @ args\<rparr>"

definition Query_WhereIn :: "string \<Rightarrow> gval list \<Rightarrow> Query \<Rightarrow> Query" where
  "Query_WhereIn field values q =
     (if length values = 0 then q
      else
        let placeholders = replicate (length values) ''?'';
            condition = field @ '' IN ('' @ strings_Join placeholders '', '' @ '')''
        in q\<lparr>q_wheres := q_wheres q @ [condition], q_args := q_args q @ values\<rparr>)"

definition Query_WhereNotIn :: "string \<Rightarrow> gval list \<Rightarrow> Query \<Rightarrow> Query" where
  "Query_WhereNotIn field values q =
     (if length values = 0 then q
      else
        let placeholders = replicate (length values) ''?'';
            condition = field @ '' NOT IN ('' @ strings_Join placeholders '', '' @ '')''
        in q\<lparr>q_wheres := q_wheres q @ [condition], q_args := q_args q @ values\<rparr>)"

definition Query_WhereBetween :: "string \<Rightarrow> gval \<Rightarrow> gval \<Rightarrow> Query \<Rightarrow> Query" where
  "Query_WhereBetween field start stop q =
     q\<lparr>q_wheres := q_wheres q @ [field @ '' BETWEEN ? AND ?''],
       q_args := q_args q @ [start, stop]\<rparr>"

definition Query_WhereLike :: "string \<Rightarrow> string \<Rightarrow> Query \<Rightarrow> Query" where
  "Query_WhereLike field pattern q =
     q\<lparr>q_wheres := q_wheres q @ [field @ '' LIKE ?''],
       q_args := q_args q @ [Val t_string (PString pattern)]\<rparr>"

definition Query_WhereNull :: "string \<Rightarrow> Query \<Rightarrow> Query" where
  "Query_WhereNull field q = q\<lparr>q_wheres := q_wheres q @ [field @ '' IS NULL'']\<rparr>"

definition Query_WhereNotNull :: "string \<Rightarrow> Query \<Rightarrow> Query" where
  "Query_WhereNotNull field q = q\<lparr>q_wheres := q_wheres q @ [field @ '' IS NOT NULL'']\<rparr>"

definition Query_Join :: "string \<Rightarrow> string \<Rightarrow> gval list \<Rightarrow> Query \<Rightarrow> Query" where
  "Query_Join table condition args q =
     q\<lparr>q_joins := q_joins q @ [''JOIN '' @ table @ '' ON '' @ condition],
       q_args := q_args q @ args\<rparr>"

definition Query_LeftJoin :: "string \<Rightarrow> string \<Rightarrow> gval list \<Rightarrow> Query \<Rightarrow> Query" where
  "Query_LeftJoin table condition args q =
     q\<lparr>q_joins := q_joins q @ [''LEFT JOIN '' @ table @ '' ON '' @ condition],
       q_args := q_args q @ args\<rparr>"

definition Query_RightJoin :: "string \<Rightarrow> string \<Rightarrow> gval list \<Rightarrow> Query \<Rightarrow> Query" where
  "Query_RightJoin table condition args q =
     q\<lparr>q_joins := q_joins q @ [''RIGHT JOIN '' @ table @ '' ON '' @ condition],
       q_args := q_args q @ args\<rparr>"

definition Query_GroupBy :: "string list \<Rightarrow> Query \<Rightarrow> Query" where
  "Query_GroupBy flds q = q\<lparr>q_groupBy := q_groupBy q @ flds\<rparr>"

definition Query_Having :: "string \<Rightarrow> gval list \<Rightarrow> Query \<Rightarrow> Query" where
  "Query_Having condition args q =
     q\<lparr>q_having := q_having q @ [condition], q_args := q_args q @ args\<rparr>"

text \<open>\<open>OrderBy(field, direction...)\<close>: the variadic \<open>direction\<close> is a list, of which the
  first element counts.\<close>

definition Query_OrderBy :: "string \<Rightarrow> string list \<Rightarrow> Query \<Rightarrow> Query" where
  "Query_OrderBy field direction q =
     (let dir = (case direction of [] \<Rightarrow> ''ASC'' | d # _ \<Rightarrow> strings_ToUpper d)
      in q\<lparr>q_orderBy := q_orderBy q @ [field @ '' '' @ dir]\<rparr>)"

definition Query_OrderByAsc :: "string \<Rightarrow> Query \<Rightarrow> Query" where
  "Query_OrderByAsc field q = q\<lparr>q_orderBy := q_orderBy q @ [field @ '' ASC'']\<rparr>"

definition Query_OrderByDesc :: "string \<Rightarrow> Query \<Rightarrow> Query" where
  "Query_OrderByDesc field q = q\<lparr>q_orderBy := q_orderBy q @ [field @ '' DESC'']\<rparr>"

definition Query_Limit :: "int \<Rightarrow> Query \<Rightarrow> Query" where
  "Query_Limit limit q = q\<lparr>q_limit := limit\<rparr>"

definition Query_Offset :: "int \<Rightarrow> Query \<Rightarrow> Query" where
  "Query_Offset offset q = q\<lparr>q_offset := offset\<rparr>"

text \<open>\<open>buildSQL\<close> appends a clause to \<open>parts\<close> under its condition, in the fixed order
  of the source, and joins the parts with a space.\<close>

definition Query_buildSQL :: "Query \<Rightarrow> string" where
  "Query_buildSQL q =
     (let selectClause =
            ''SELECT '' @ (if q_distinct q then ''DISTINCT '' else '''')
            @ strings_Join (q_selects q) '', '';
          parts =
            [selectClause]
            @ (if q_table q \<noteq> '''' then [''FROM '' @ q_table q] else [])
            @ (if length (q_joins q) > 0 then [strings_Join (q_joins q) '' ''] else [])
            @ (if length (q_wheres q) > 0
               then [''WHERE '' @ strings_Join (q_wheres q) '' AND ''] else [])
            @ (if length (q_groupBy q) > 0
               then [''GROUP BY '' @ strings_Join (q_groupBy q) '', ''] else [])
            @ (if length (q_having q) > 0
               then [''HAVING '' @ strings_Join (q_having q) '' AND ''] else [])
            @ (if length (q_orderBy q) > 0
               then [''ORDER BY '' @ strings_Join (q_orderBy q) '', ''] else [])
            @ (if q_limit q > 0 then [''LIMIT '' @ Sprintf_d (q_limit q)] else [])
            @ (if q_offset q > 0 then [''OFFSET '' @ Sprintf_d (q_offset q)] else [])
      in strings_Join parts '' '')"

subsection \<open>Mapper: schema derivation\<close>

text \<open>
  What \<open>reflect\<close> shows of a struct field: name, type, tag, whether it is exported, and
  the value it holds. A tag is the list of its keys with their values; \<open>Tag.Get\<close> answers
  the empty string for a key that is absent.
\<close>

record Field =
  f_Name :: string
  f_Type :: gtype
  f_Tag :: "(string \<times> string) list"
  f_Exported :: bool
  f_Value :: payload

definition Tag_Get :: "(string \<times> string) list \<Rightarrow> string \<Rightarrow> string" where
  "Tag_Get tag key = (case map_of tag key of Some v \<Rightarrow> v | None \<Rightarrow> '''')"

text \<open>
  The argument \<open>model interface{}\<close>: whether the value is a pointer, what it is after
  one dereference (a struct with its type name and fields, or any other kind, given by
  the name of the kind), and the answer of its \<open>TableName\<close> method when its type
  implements the interface \<open>Model\<close>. A pointer that is \<open>nil\<close> is \<open>NilPointerTo\<close> with
  what its type points to: \<open>reflect.Value.Elem\<close> of it is the zero Value, of the kind
  \<open>invalid\<close>, while \<open>reflect.Type.Elem\<close> of its type is the type pointed to. Fields of
  embedded structs are not modelled.
\<close>

datatype shape = Struct string "Field list" | NonStruct string | NilPointerTo shape

record model =
  m_ptr :: bool
  m_shape :: shape
  m_TableName :: "string option"

record FieldInfo =
  fi_Name :: string
  fi_Type :: string
  fi_Tag :: string
  fi_IsPK :: bool
  fi_IsAuto :: bool
  fi_Nullable :: bool

text \<open>The Go map \<open>Options\<close> is the list of its entries.\<close>

record TableInfo =
  ti_Name :: string
  ti_Fields :: "FieldInfo list"
  ti_Engine :: string
  ti_Options :: "(string \<times> string) list"

record Mapper =
  registry :: "string \<rightharpoonup> TableInfo"

definition NewMapper :: Mapper where
  "NewMapper = \<lparr>registry = Map.empty\<rparr>"

fun Mapper_goTypeToClickHouseType :: "gtype \<Rightarrow> string" where
  "Mapper_goTypeToClickHouseType (GoSlice n elem) =
     ''Array('' @ Mapper_goTypeToClickHouseType elem @ '')''"
| "Mapper_goTypeToClickHouseType (GoArray n elem) =
     ''Array('' @ Mapper_goTypeToClickHouseType elem @ '')''"
| "Mapper_goTypeToClickHouseType (GoType n k) =
     (if k = KBool then ''Boolean''
      else if k \<in> {KInt, KInt8, KInt16, KInt32} then ''Int32''
      else if k = KInt64 then ''Int64''
      else if k \<in> {KUint, KUint8, KUint16, KUint32} then ''UInt32''
      else if k = KUint64 then ''UInt64''
      else if k = KFloat32 then ''Float32''
      else if k = KFloat64 then ''Float64''
      else if k = KString then ''String''
      else if k = KStruct then (if n = ''time.Time'' then ''DateTime'' else ''String'')
      else ''String'')"

text \<open>\<open>parseField\<close> returns the descriptor and an error, which is always \<open>nil\<close>.\<close>

definition Mapper_parseField :: "Field \<Rightarrow> FieldInfo \<times> string option" where
  "Mapper_parseField field =
     (let info = \<lparr>fi_Name = f_Name field, fi_Type = ''String'', fi_Tag = '''',
                  fi_IsPK = False, fi_IsAuto = False, fi_Nullable = False\<rparr>;
          info = (if Tag_Get (f_Tag field) ''ch'' \<noteq> ''''
                  then info\<lparr>fi_Name := Tag_Get (f_Tag field) ''ch''\<rparr> else info);
          info = (if Tag_Get (f_Tag field) ''ch_type'' \<noteq> ''''
                  then info\<lparr>fi_Type := Tag_Get (f_Tag field) ''ch_type''\<rparr>
                  else info\<lparr>fi_Type := Mapper_goTypeToClickHouseType (f_Type field)\<rparr>);
          info = (if Tag_Get (f_Tag field) ''ch_pk'' = ''true''
                  then info\<lparr>fi_IsPK := True\<rparr> else info);
          info = (if Tag_Get (f_Tag field) ''ch_auto'' = ''true''
                  then info\<lparr>fi_IsAuto := True\<rparr> else info);
          info = (if Tag_Get (f_Tag field) ''ch_nullable'' = ''true''
                  then info\<lparr>fi_Nullable := True\<rparr> else info)
      in (info, None))"

text \<open>\<open>getTableName\<close>: \<open>typ.Field(0)\<close> panics on a struct type without fields.\<close>

definition Mapper_getTableName :: "model \<Rightarrow> string \<Rightarrow> Field list \<Rightarrow> string outcome" where
  "Mapper_getTableName mdl typName typFields =
     (case m_TableName mdl of
        Some name \<Rightarrow> Return name
      | None \<Rightarrow>
          (case typFields of
             [] \<Rightarrow> Panic ''reflect: Field index out of bounds''
           | field0 # _ \<Rightarrow>
               if Tag_Get (f_Tag field0) ''ch_table'' \<noteq> ''''
               then Return (Tag_Get (f_Tag field0) ''ch_table'')
               else Return (strings_ToLower typName)))"

text \<open>The loop of \<open>ParseStruct\<close> over the fields of the type, with \<open>info.Fields\<close> as
  the accumulator.\<close>

fun parseFields :: "Field list \<Rightarrow> FieldInfo list \<Rightarrow> string + FieldInfo list" where
  "parseFields [] acc = Inr acc"
| "parseFields (field # rest) acc =
     (case Mapper_parseField field of
        (fieldInfo, Some err) \<Rightarrow>
          Inl (''error parsing field '' @ f_Name field @ '': '' @ err)
      | (fieldInfo, None) \<Rightarrow>
          parseFields rest (if fi_Name fieldInfo \<noteq> '''' then acc @ [fieldInfo] else acc))"

text \<open>\<open>ParseStruct\<close> returns the mapper with its cache, and the descriptor (\<open>Inr\<close>) or
  the error (\<open>Inl\<close>), unless it panics.\<close>

definition Mapper_ParseStruct ::
  "Mapper \<Rightarrow> model \<Rightarrow> Mapper \<times> (string + TableInfo) outcome" where
  "Mapper_ParseStruct m mdl =
     (case m_shape mdl of
        NonStruct kindName \<Rightarrow> (m, Return (Inl (''model must be a struct, got '' @ kindName)))
      | NilPointerTo elemType \<Rightarrow> (m, Return (Inl ''model must be a struct, got invalid''))
      | Struct typName typFields \<Rightarrow>
          (case Mapper_getTableName mdl typName typFields of
             Panic p \<Rightarrow> (m, Panic p)
           | Return tableName \<Rightarrow>
               (case registry m tableName of
                  Some info \<Rightarrow> (m, Return (Inr info))
                | None \<Rightarrow>
                    (case parseFields typFields [] of
                       Inl err \<Rightarrow> (m, Return (Inl err))
                     | Inr fieldInfos \<Rightarrow>
                         let info = \<lparr>ti_Name = tableName, ti_Fields = fieldInfos,
                                      ti_Engine = ''MergeTree'', ti_Options = []\<rparr>
                         in (m\<lparr>registry := (registry m)(tableName \<mapsto> info)\<rparr>,
                             Return (Inr info))))))"

text \<open>\<open>BuildCreateTableSQL\<close>. Go visits the entries of the map \<open>Options\<close> in an order of
  its choice; \<open>rangeOrder\<close> is that choice.\<close>

definition columnDef :: "FieldInfo \<Rightarrow> string" where
  "columnDef field =
     ''`'' @ fi_Name field @ ''` '' @ fi_Type field
     @ (if fi_IsPK field then '' PRIMARY KEY'' else '''')
     @ (if fi_IsAuto field then '' AUTO_INCREMENT'' else '''')"

definition Mapper_BuildCreateTableSQL ::
  "((string \<times> string) list \<Rightarrow> (string \<times> string) list) \<Rightarrow> TableInfo \<Rightarrow> string" where
  "Mapper_BuildCreateTableSQL rangeOrder info =
     (let columns = map columnDef (ti_Fields info);
          engine = (if ti_Engine info = '''' then ''MergeTree'' else ti_Engine info);
          sql = ''CREATE TABLE IF NOT EXISTS `'' @ ti_Name info @ ''` ('' @ [CHR 0x0A]
                @ ''  '' @ strings_Join columns ('','' @ [CHR 0x0A] @ ''  '') @ [CHR 0x0A]
                @ '') ENGINE = '' @ engine
      in if length (ti_Options info) > 0
         then sql @ ''('' @ strings_Join
                (map (\<lambda>(k, v). k @ '' = '' @ v) (rangeOrder (ti_Options info))) '', '' @ '')''
         else sql)"

subsection \<open>Mapper: writing a field\<close>

text \<open>
  The library functions that \<open>SetFieldValue\<close> calls and whose results the model does not
  compute: the verb \<open>%v\<close>, \<open>strconv.ParseInt(v, 10, 64)\<close>, \<open>strconv.ParseUint(v, 10, 64)\<close>,
  \<open>strconv.ParseFloat(v, 64)\<close> (\<open>None\<close> for an error), and the conversions between
  \<open>float32\<close> and \<open>float64\<close>.
\<close>

record golib =
  fmt_Sprint_v :: "gval \<Rightarrow> string"
  strconv_ParseInt :: "string \<Rightarrow> int option"
  strconv_ParseUint :: "string \<Rightarrow> int option"
  strconv_ParseFloat :: "string \<Rightarrow> 64 word option"
  float64_of_float32 :: "32 word \<Rightarrow> 64 word"
  float32_of_float64 :: "64 word \<Rightarrow> 32 word"

definition strconv_ParseBool :: "string \<Rightarrow> bool option" where
  "strconv_ParseBool s =
     (if s \<in> {''1'', ''t'', ''T'', ''TRUE'', ''true'', ''True''} then Some True
      else if s \<in> {''0'', ''f'', ''F'', ''FALSE'', ''false'', ''False''} then Some False
      else None)"

text \<open>The width of an integer kind, and the conversion of a number to a signed integer
  of a width, which wraps around.\<close>

definition bits :: "kind \<Rightarrow> nat" where
  "bits k =
     (if k \<in> {KInt8, KUint8} then 8 else if k \<in> {KInt16, KUint16} then 16
      else if k \<in> {KInt32, KUint32} then 32 else 64)"

definition wrap_signed :: "nat \<Rightarrow> int \<Rightarrow> int" where
  "wrap_signed n x = (x + 2 ^ (n - 1)) mod 2 ^ n - 2 ^ (n - 1)"

text \<open>\<open>reflect.Value.SetInt\<close>, \<open>SetUint\<close> and \<open>SetFloat\<close> store their argument converted
  to the type of the field.\<close>

definition SetInt :: "kind \<Rightarrow> int \<Rightarrow> payload" where
  "SetInt k x = PInt (wrap_signed (bits k) x)"

definition SetUint :: "kind \<Rightarrow> int \<Rightarrow> payload" where
  "SetUint k x = PInt (x mod 2 ^ bits k)"

definition SetFloat :: "golib \<Rightarrow> kind \<Rightarrow> 64 word \<Rightarrow> payload" where
  "SetFloat lib k x = (if k = KFloat32 then PFloat32 (float32_of_float64 lib x) else PFloat64 x)"

text \<open>The statement \<open>switch fieldType.Kind()\<close> of \<open>SetFieldValue\<close> with its type
  switches on the value: the payload it stores, or \<open>None\<close> when it stores nothing.\<close>

definition SetFieldValue_switch :: "golib \<Rightarrow> gtype \<Rightarrow> gval \<Rightarrow> payload option" where
  "SetFieldValue_switch lib fieldType v =
     (case fieldType of
        GoSlice n elem \<Rightarrow> None
      | GoArray n elem \<Rightarrow> None
      | GoType n k \<Rightarrow>
          if k = KString then Some (PString (fmt_Sprint_v lib v))
          else if k \<in> {KInt, KInt8, KInt16, KInt32, KInt64} then
            (case v of
               Val t (PInt i) \<Rightarrow>
                 if t = t_int64 then Some (SetInt k i)
                 else if t = t_int32 then Some (SetInt k i)
                 else if t = t_int16 then Some (SetInt k i)
                 else if t = t_int8 then Some (SetInt k i)
                 else if t = t_uint64 then Some (SetInt k (wrap_signed 64 i))
                 else if t = t_uint32 then Some (SetInt k i)
                 else if t = t_uint16 then Some (SetInt k i)
                 else if t = t_uint8 then Some (SetInt k i)
                 else None
             | Val t (PString s) \<Rightarrow>
                 if t = t_string
                 then (case strconv_ParseInt lib s of Some i \<Rightarrow> Some (SetInt k i) | None \<Rightarrow> None)
                 else None
             | _ \<Rightarrow> None)
          else if k \<in> {KUint, KUint8, KUint16, KUint32, KUint64} then
            (case v of
               Val t (PInt i) \<Rightarrow>
                 if t = t_uint64 then Some (SetUint k i)
                 else if t = t_uint32 then Some (SetUint k i)
                 else if t = t_uint16 then Some (SetUint k i)
                 else if t = t_uint8 then Some (SetUint k i)
                 else if t = t_int64 then Some (SetUint k (i mod 2 ^ 64))
                 else if t = t_int32 then Some (SetUint k (i mod 2 ^ 64))
                 else if t = t_int16 then Some (SetUint k (i mod 2 ^ 64))
                 else if t = t_int8 then Some (SetUint k (i mod 2 ^ 64))
                 else None
             | Val t (PString s) \<Rightarrow>
                 if t = t_string
                 then (case strconv_ParseUint lib s of Some i \<Rightarrow> Some (SetUint k i) | None \<Rightarrow> None)
                 else None
             | _ \<Rightarrow> None)
          else if k \<in> {KFloat32, KFloat64} then
            (case v of
               Val t (PFloat64 x) \<Rightarrow> if t = t_float64 then Some (SetFloat lib k x) else None
             | Val t (PFloat32 x) \<Rightarrow>
                 if t = t_float32 then Some (SetFloat lib k (float64_of_float32 lib x)) else None
             | Val t (PString s) \<Rightarrow>
                 if t = t_string
                 then (case strconv_ParseFloat lib s of
                         Some x \<Rightarrow> Some (SetFloat lib k x) | None \<Rightarrow> None)
                 else None
             | _ \<Rightarrow> None)
          else if k = KBool then
            (case v of
               Val t (PBool b) \<Rightarrow> if t = t_bool then Some (PBool b) else None
             | Val t (PString s) \<Rightarrow>
                 if t = t_string
                 then (case strconv_ParseBool s of Some b \<Rightarrow> Some (PBool b) | None \<Rightarrow> None)
                 else None
             | _ \<Rightarrow> None)
          else None)"

text \<open>\<open>FieldByName\<close> finds the first field of the name; \<open>set_field\<close> stores a payload
  in it.\<close>

fun set_field :: "string \<Rightarrow> payload \<Rightarrow> Field list \<Rightarrow> Field list" where
  "set_field name p [] = []"
| "set_field name p (f # fs) =
     (if f_Name f = name then f\<lparr>f_Value := p\<rparr> # fs else f # set_field name p fs)"

text \<open>The test \<open>fieldType == valueType\<close>, where \<open>reflect.TypeOf\<close> of \<open>nil\<close> is no type:
  the payload that \<open>field.Set\<close> stores when the test holds.\<close>

definition same_type_payload :: "gtype \<Rightarrow> gval \<Rightarrow> payload option" where
  "same_type_payload fieldType v =
     (case v of
        NilValue \<Rightarrow> None
      | Val valueType p \<Rightarrow> if fieldType = valueType then Some p else None)"

definition Mapper_SetFieldValue ::
  "golib \<Rightarrow> model \<Rightarrow> string \<Rightarrow> gval \<Rightarrow> model \<times> string option" where
  "Mapper_SetFieldValue lib mdl fieldName v =
     (if \<not> m_ptr mdl then (mdl, Some ''model must be a pointer to struct'')
      else
        (case m_shape mdl of
           NonStruct kindName \<Rightarrow> (mdl, Some ''model must be a pointer to struct'')
         | NilPointerTo elemType \<Rightarrow> (mdl, Some ''model must be a pointer to struct'')
         | Struct typName typFields \<Rightarrow>
             (case find (\<lambda>f. f_Name f = fieldName) typFields of
                None \<Rightarrow> (mdl, Some (''field '' @ fieldName @ '' not found''))
              | Some field \<Rightarrow>
                  (if \<not> f_Exported field
                   then (mdl, Some (''field '' @ fieldName @ '' is not settable''))
                   else
                     (case same_type_payload (f_Type field) v of
                        Some p \<Rightarrow>
                          (mdl\<lparr>m_shape := Struct typName (set_field fieldName p typFields)\<rparr>,
                           None)
                      | None \<Rightarrow>
                          (case SetFieldValue_switch lib (f_Type field) v of
                             Some p \<Rightarrow>
                               (mdl\<lparr>m_shape :=
                                      Struct typName (set_field fieldName p typFields)\<rparr>,
                                None)
                           | None \<Rightarrow> (mdl, None)))))))"

subsection \<open>The connection: QueryRow, Exec and scanRow\<close>

text \<open>
  The connection \<open>db.conn\<close> is a \<open>*sql.DB\<close> of \<open>database/sql\<close>. Its state has the type
  \<open>'c\<close>; \<open>QueryRowContext\<close> answers a row, which is what \<open>row.Scan\<close> returns for a number
  of destinations (the error, or that many values); \<open>ExecContext\<close> answers an error, or
  the last insert id and the number of rows affected. Printing under \<open>config.Debug\<close> is
  left out.
\<close>

type_synonym row = "nat \<Rightarrow> string + gval list"

record 'c driver =
  QueryRowContext :: "'c \<Rightarrow> string \<Rightarrow> gval list \<Rightarrow> 'c \<times> row"
  ExecContext :: "'c \<Rightarrow> string \<Rightarrow> gval list \<Rightarrow> 'c \<times> (string + int \<times> int)"

record Result =
  LastInsertID :: int
  RowsAffected :: int

text \<open>\<open>resultVal.Type().Elem()\<close>: what the type of the destination points to.\<close>

fun Type_Elem :: "shape \<Rightarrow> shape" where
  "Type_Elem (NilPointerTo elemType) = elemType"
| "Type_Elem s = s"

text \<open>\<open>scanRow\<close> returns its error; the values that it copies into the fields of a struct
  are not part of the model. A destination that is not a pointer to a struct is refused
  before the row is read; the test reads the type of the destination, so that a \<open>nil\<close>
  pointer to a struct passes. Then a new mapper parses \<open>temp\<close>, a pointer to a new
  value of the type of the destination, which has the type and the methods of the
  destination, and the row is read. For a \<open>nil\<close> destination \<open>resultVal.Elem()\<close> is the
  zero Value, on which \<open>FieldByName\<close> panics in \<open>setFieldValue\<close> for the first column.\<close>

definition DB_scanRow :: "row \<Rightarrow> model \<Rightarrow> string option outcome" where
  "DB_scanRow r result =
     (if \<not> m_ptr result then Return (Some ''result must be a pointer'')
      else
        case Type_Elem (m_shape result) of
          NonStruct kindName \<Rightarrow> Return (Some ''result must be a pointer to struct'')
        | NilPointerTo elemType \<Rightarrow> Return (Some ''result must be a pointer to struct'')
        | Struct typName typFields \<Rightarrow>
            (case snd (Mapper_ParseStruct NewMapper
                         (result\<lparr>m_shape := Struct typName typFields\<rparr>)) of
               Panic p \<Rightarrow> Panic p
             | Return (Inl err) \<Rightarrow> Return (Some (''failed to parse struct: '' @ err))
             | Return (Inr info) \<Rightarrow>
                 (case r (length (ti_Fields info)) of
                    Inl err \<Rightarrow> Return (Some (''failed to scan row: '' @ err))
                  | Inr values \<Rightarrow>
                      if m_shape result = NilPointerTo (Struct typName typFields)
                         \<and> length (ti_Fields info) > 0
                      then Panic ''reflect: call of reflect.Value.FieldByName on zero Value''
                      else Return None)))"

definition DB_QueryRow ::
  "'c driver \<Rightarrow> 'c \<Rightarrow> model \<Rightarrow> string \<Rightarrow> gval list \<Rightarrow> 'c \<times> string option outcome" where
  "DB_QueryRow drv c result query args =
     (let (c', r) = QueryRowContext drv c query args in (c', DB_scanRow r result))"

definition DB_Exec ::
  "'c driver \<Rightarrow> 'c \<Rightarrow> string \<Rightarrow> gval list \<Rightarrow> 'c \<times> Result \<times> string option" where
  "DB_Exec drv c query args =
     (let (c', res) = ExecContext drv c query args
      in case res of
           Inl err \<Rightarrow>
             (c', \<lparr>LastInsertID = 0, RowsAffected = 0\<rparr>,
              Some (''failed to execute query: '' @ err))
         | Inr (lastInsertID, rowsAffected) \<Rightarrow>
             (c', \<lparr>LastInsertID = lastInsertID, RowsAffected = rowsAffected\<rparr>, None))"

subsection \<open>Query builder: terminal operations\<close>

text \<open>
  A terminal operation takes the builder and the state of the connection, and returns
  both with its result. Where the call of \<open>QueryRow\<close> panics, the statements after the
  call do not run.
\<close>

definition Query_Get ::
  "'c driver \<Rightarrow> Query \<Rightarrow> 'c \<Rightarrow> model \<Rightarrow> Query \<times> 'c \<times> string option outcome" where
  "Query_Get drv q c result =
     (let q = q\<lparr>q_limit := 1\<rparr>;
          sql = Query_buildSQL q;
          (c', r) = DB_QueryRow drv c result sql (q_args q)
      in (q, c', r))"

text \<open>The destinations \<open>&count\<close> of \<open>Count\<close> and \<open>&exists\<close> of \<open>Exists\<close>: pointers to an
  \<open>int64\<close> and to an \<open>int\<close>. Nothing is ever stored in them, so \<open>count\<close> stays \<open>0\<close>.\<close>

definition ptr_to_int64 :: model where
  "ptr_to_int64 = \<lparr>m_ptr = True, m_shape = NonStruct ''int64'', m_TableName = None\<rparr>"

definition ptr_to_int :: model where
  "ptr_to_int = \<lparr>m_ptr = True, m_shape = NonStruct ''int'', m_TableName = None\<rparr>"

definition Query_Count ::
  "'c driver \<Rightarrow> Query \<Rightarrow> 'c \<Rightarrow> Query \<times> 'c \<times> (int \<times> string option) outcome" where
  "Query_Count drv q c =
     (let originalSelects = q_selects q;
          q = q\<lparr>q_selects := [''COUNT(*)'']\<rparr>;
          sql = Query_buildSQL q;
          (c', r) = DB_QueryRow drv c ptr_to_int64 sql (q_args q)
      in case r of
           Panic p \<Rightarrow> (q, c', Panic p)
         | Return err \<Rightarrow> (q\<lparr>q_selects := originalSelects\<rparr>, c', Return (0, err)))"

definition Query_Exists ::
  "'c driver \<Rightarrow> Query \<Rightarrow> 'c \<Rightarrow> Query \<times> 'c \<times> (bool \<times> string option) outcome" where
  "Query_Exists drv q c =
     (let q = q\<lparr>q_selects := [''1'']\<rparr>;
          q = q\<lparr>q_limit := 1\<rparr>;
          sql = Query_buildSQL q;
          (c', r) = DB_QueryRow drv c ptr_to_int sql (q_args q)
      in case r of
           Panic p \<Rightarrow> (q, c', Panic p)
         | Return err \<Rightarrow> (q, c', Return (err = None, err)))"

definition Query_First ::
  "'c driver \<Rightarrow> Query \<Rightarrow> 'c \<Rightarrow> model \<Rightarrow> Query \<times> 'c \<times> string option outcome" where
  "Query_First drv q c result = Query_Get drv (q\<lparr>q_limit := 1\<rparr>) c result"

text \<open>The loop of \<open>Last\<close> over the entries of \<open>orderBy\<close>, one entry at a time.\<close>

definition invert_order :: "string \<Rightarrow> string" where
  "invert_order order =
     (if strings_Contains order ''ASC'' then strings_Replace1 order ''ASC'' ''DESC''
      else if strings_Contains order ''DESC'' then strings_Replace1 order ''DESC'' ''ASC''
      else order @ '' DESC'')"

definition Query_Last ::
  "'c driver \<Rightarrow> Query \<Rightarrow> 'c \<Rightarrow> model \<Rightarrow> Query \<times> 'c \<times> string option outcome" where
  "Query_Last drv q c result =
     (let originalOrderBy = q_orderBy q;
          q = (if length (q_orderBy q) = 0 then q\<lparr>q_orderBy := [''id DESC'']\<rparr>
               else q\<lparr>q_orderBy := map invert_order (q_orderBy q)\<rparr>);
          q = q\<lparr>q_limit := 1\<rparr>;
          (q, c', r) = Query_Get drv q c result
      in case r of
           Panic p \<Rightarrow> (q, c', Panic p)
         | Return err \<Rightarrow> (q\<lparr>q_orderBy := originalOrderBy\<rparr>, c', Return err))"

text \<open>\<open>Update\<close>: the Go map \<open>data\<close> is the list of its entries in the order in which the
  \<open>range\<close> loop visits them, which Go leaves open.\<close>

definition Query_Update ::
  "'c driver \<Rightarrow> (string \<times> gval) list \<Rightarrow> Query \<Rightarrow> 'c \<Rightarrow> 'c \<times> Result \<times> string option" where
  "Query_Update drv data q c =
     (if length data = 0
      then (c, \<lparr>LastInsertID = 0, RowsAffected = 0\<rparr>, Some ''no data to update'')
      else
        let sets = map (\<lambda>(field, v). field @ '' = ?'') data;
            args = map (\<lambda>(field, v). v) data;
            args = args @ q_args q;
            sql = ''UPDATE '' @ q_table q @ '' SET '' @ strings_Join sets '', '';
            sql = (if length (q_wheres q) > 0
                   then sql @ '' WHERE '' @ strings_Join (q_wheres q) '' AND '' else sql)
        in DB_Exec drv c sql args)"

definition Query_Delete :: "'c driver \<Rightarrow> Query \<Rightarrow> 'c \<Rightarrow> 'c \<times> Result \<times> string option" where
  "Query_Delete drv q c =
     (let sql = ''DELETE FROM '' @ q_table q;
          sql = (if length (q_wheres q) > 0
                 then sql @ '' WHERE '' @ strings_Join (q_wheres q) '' AND '' else sql)
      in DB_Exec drv c sql (q_args q))"

text \<open>A connection that records every statement it is sent, with the arguments, and
  answers each with the same row and the same result.\<close>

definition recording_driver ::
  "row \<Rightarrow> (string + int \<times> int) \<Rightarrow> ((string \<times> gval list) list) driver" where
  "recording_driver r res =
     \<lparr>QueryRowContext = (\<lambda>c query args. (c @ [(query, args)], r)),
      ExecContext = (\<lambda>c query args. (c @ [(query, args)], res))\<rparr>"

subsection \<open>Aggregate builder\<close>

text \<open>The struct \<open>Aggregate\<close> holds a pointer to its query and the list \<open>funcs\<close>; the
  operations below touch \<open>funcs\<close> only.\<close>

record Aggregate =
  funcs :: "string list"

definition NewAggregate :: "Aggregate" where
  "NewAggregate = \<lparr>funcs = []\<rparr>"

definition Aggregate_Sum :: "string \<Rightarrow> Aggregate \<Rightarrow> Aggregate" where
  "Aggregate_Sum field a = a\<lparr>funcs := funcs a @ [''SUM('' @ field @ '') as sum_'' @ field]\<rparr>"

definition Aggregate_Avg :: "string \<Rightarrow> Aggregate \<Rightarrow> Aggregate" where
  "Aggregate_Avg field a = a\<lparr>funcs := funcs a @ [''AVG('' @ field @ '') as avg_'' @ field]\<rparr>"

definition Aggregate_Min :: "string \<Rightarrow> Aggregate \<Rightarrow> Aggregate" where
  "Aggregate_Min field a = a\<lparr>funcs := funcs a @ [''MIN('' @ field @ '') as min_'' @ field]\<rparr>"

definition Aggregate_Max :: "string \<Rightarrow> Aggregate \<Rightarrow> Aggregate" where
  "Aggregate_Max field a = a\<lparr>funcs := funcs a @ [''MAX('' @ field @ '') as max_'' @ field]\<rparr>"

definition Aggregate_Count :: "string \<Rightarrow> Aggregate \<Rightarrow> Aggregate" where
  "Aggregate_Count field a =
     (if field = ''*'' then a\<lparr>funcs := funcs a @ [''COUNT(*) as count'']\<rparr>
      else a\<lparr>funcs := funcs a @ [''COUNT('' @ field @ '') as count_'' @ field]\<rparr>)"

definition Aggregate_CountDistinct :: "string \<Rightarrow> Aggregate \<Rightarrow> Aggregate" where
  "Aggregate_CountDistinct field a =
     a\<lparr>funcs := funcs a @ [''COUNT(DISTINCT '' @ field @ '') as count_distinct_'' @ field]\<rparr>"

definition Aggregate_Uniq :: "string \<Rightarrow> Aggregate \<Rightarrow> Aggregate" where
  "Aggregate_Uniq field a = a\<lparr>funcs := funcs a @ [''uniq('' @ field @ '') as uniq_'' @ field]\<rparr>"

definition Aggregate_UniqExact :: "string \<Rightarrow> Aggregate \<Rightarrow> Aggregate" where
  "Aggregate_UniqExact field a =
     a\<lparr>funcs := funcs a @ [''uniqExact('' @ field @ '') as uniq_exact_'' @ field]\<rparr>"

text \<open>\<open>Quantile\<close> formats its level twice with the verb \<open>%f\<close>; the formatter is the
  first argument here.\<close>

definition Aggregate_Quantile ::
  "(64 word \<Rightarrow> string) \<Rightarrow> 64 word \<Rightarrow> string \<Rightarrow> Aggregate \<Rightarrow> Aggregate" where
  "Aggregate_Quantile fmt_f level field a =
     a\<lparr>funcs := funcs a @
        [''quantile('' @ fmt_f level @ '')('' @ field @ '') as quantile_'' @ fmt_f level
         @ ''_'' @ field]\<rparr>"

definition Aggregate_Median :: "string \<Rightarrow> Aggregate \<Rightarrow> Aggregate" where
  "Aggregate_Median field a =
     a\<lparr>funcs := funcs a @ [''median('' @ field @ '') as median_'' @ field]\<rparr>"

definition Aggregate_StdDev :: "string \<Rightarrow> Aggregate \<Rightarrow> Aggregate" where
  "Aggregate_StdDev field a =
     a\<lparr>funcs := funcs a @ [''stddev('' @ field @ '') as stddev_'' @ field]\<rparr>"

definition Aggregate_Variance :: "string \<Rightarrow> Aggregate \<Rightarrow> Aggregate" where
  "Aggregate_Variance field a =
     a\<lparr>funcs := funcs a @ [''varSamp('' @ field @ '') as variance_'' @ field]\<rparr>"

definition Aggregate_Any :: "string \<Rightarrow> Aggregate \<Rightarrow> Aggregate" where
  "Aggregate_Any field a = a\<lparr>funcs := funcs a @ [''any('' @ field @ '') as any_'' @ field]\<rparr>"

definition Aggregate_ArgMin :: "string \<Rightarrow> string \<Rightarrow> Aggregate \<Rightarrow> Aggregate" where
  "Aggregate_ArgMin arg val a =
     a\<lparr>funcs := funcs a @
        [''argMin('' @ arg @ '', '' @ val @ '') as argmin_'' @ arg @ ''_'' @ val]\<rparr>"

definition Aggregate_ArgMax :: "string \<Rightarrow> string \<Rightarrow> Aggregate \<Rightarrow> Aggregate" where
  "Aggregate_ArgMax arg val a =
     a\<lparr>funcs := funcs a @
        [''argMax('' @ arg @ '', '' @ val @ '') as argmax_'' @ arg @ ''_'' @ val]\<rparr>"

definition Aggregate_GroupArray :: "string \<Rightarrow> Aggregate \<Rightarrow> Aggregate" where
  "Aggregate_GroupArray field a =
     a\<lparr>funcs := funcs a @ [''groupArray('' @ field @ '') as group_array_'' @ field]\<rparr>"

definition Aggregate_GroupUniqArray :: "string \<Rightarrow> Aggregate \<Rightarrow> Aggregate" where
  "Aggregate_GroupUniqArray field a =
     a\<lparr>funcs := funcs a @
        [''groupUniqArray('' @ field @ '') as group_uniq_array_'' @ field]\<rparr>"

definition Aggregate_TopK :: "int \<Rightarrow> string \<Rightarrow> Aggregate \<Rightarrow> Aggregate" where
  "Aggregate_TopK k field a =
     a\<lparr>funcs := funcs a @
        [''topK('' @ Sprintf_d k @ '')('' @ field @ '') as topk_'' @ Sprintf_d k
         @ ''_'' @ field]\<rparr>"

definition Aggregate_TopKWeighted :: "int \<Rightarrow> string \<Rightarrow> string \<Rightarrow> Aggregate \<Rightarrow> Aggregate" where
  "Aggregate_TopKWeighted k field weight a =
     a\<lparr>funcs := funcs a @
        [''topKWeighted('' @ Sprintf_d k @ '')('' @ field @ '', '' @ weight
         @ '') as topk_weighted_'' @ Sprintf_d k @ ''_'' @ field @ ''_'' @ weight]\<rparr>"

definition Aggregate_Histogram :: "int \<Rightarrow> string \<Rightarrow> Aggregate \<Rightarrow> Aggregate" where
  "Aggregate_Histogram bins field a =
     a\<lparr>funcs := funcs a @
        [''histogram('' @ Sprintf_d bins @ '')('' @ field @ '') as histogram_''
         @ Sprintf_d bins @ ''_'' @ field]\<rparr>"

definition Aggregate_Corr :: "string \<Rightarrow> string \<Rightarrow> Aggregate \<Rightarrow> Aggregate" where
  "Aggregate_Corr x y a =
     a\<lparr>funcs := funcs a @ [''corr('' @ x @ '', '' @ y @ '') as corr_'' @ x @ ''_'' @ y]\<rparr>"

definition Aggregate_CovarPop :: "string \<Rightarrow> string \<Rightarrow> Aggregate \<Rightarrow> Aggregate" where
  "Aggregate_CovarPop x y a =
     a\<lparr>funcs := funcs a @
        [''covarPop('' @ x @ '', '' @ y @ '') as covar_pop_'' @ x @ ''_'' @ y]\<rparr>"

definition Aggregate_CovarSamp :: "string \<Rightarrow> string \<Rightarrow> Aggregate \<Rightarrow> Aggregate" where
  "Aggregate_CovarSamp x y a =
     a\<lparr>funcs := funcs a @
        [''covarSamp('' @ x @ '', '' @ y @ '') as covar_samp_'' @ x @ ''_'' @ y]\<rparr>"

definition Aggregate_SkewPop :: "string \<Rightarrow> Aggregate \<Rightarrow> Aggregate" where
  "Aggregate_SkewPop field a =
     a\<lparr>funcs := funcs a @ [''skewPop('' @ field @ '') as skew_pop_'' @ field]\<rparr>"

definition Aggregate_KurtPop :: "string \<Rightarrow> Aggregate \<Rightarrow> Aggregate" where
  "Aggregate_KurtPop field a =
     a\<lparr>funcs := funcs a @ [''kurtPop('' @ field @ '') as kurt_pop_'' @ field]\<rparr>"

definition Aggregate_Entropy :: "string \<Rightarrow> Aggregate \<Rightarrow> Aggregate" where
  "Aggregate_Entropy field a =
     a\<lparr>funcs := funcs a @ [''entropy('' @ field @ '') as entropy_'' @ field]\<rparr>"

definition Aggregate_GeometricMean :: "string \<Rightarrow> Aggregate \<Rightarrow> Aggregate" where
  "Aggregate_GeometricMean field a =
     a\<lparr>funcs := funcs a @
        [''geometricMean('' @ field @ '') as geometric_mean_'' @ field]\<rparr>"

definition Aggregate_HarmonicMean :: "string \<Rightarrow> Aggregate \<Rightarrow> Aggregate" where
  "Aggregate_HarmonicMean field a =
     a\<lparr>funcs := funcs a @
        [''harmonicMean('' @ field @ '') as harmonic_mean_'' @ field]\<rparr>"

subsection \<open>Window builder\<close>

text \<open>The struct \<open>Window\<close>; its fields carry the prefix \<open>w_\<close> here.\<close>

record Window =
  w_function :: string
  w_over :: string
  w_alias :: string

definition NewWindow :: "Window" where
  "NewWindow = \<lparr>w_function = '''', w_over = '''', w_alias = ''''\<rparr>"

definition Window_RowNumber :: "Window \<Rightarrow> Window" where
  "Window_RowNumber w = w\<lparr>w_function := ''ROW_NUMBER()''\<rparr>"

definition Window_Rank :: "Window \<Rightarrow> Window" where
  "Window_Rank w = w\<lparr>w_function := ''RANK()''\<rparr>"

definition Window_DenseRank :: "Window \<Rightarrow> Window" where
  "Window_DenseRank w = w\<lparr>w_function := ''DENSE_RANK()''\<rparr>"

definition Window_Lag :: "string \<Rightarrow> int \<Rightarrow> Window \<Rightarrow> Window" where
  "Window_Lag field offset w =
     w\<lparr>w_function := ''LAG('' @ field @ '', '' @ Sprintf_d offset @ '')''\<rparr>"

definition Window_Lead :: "string \<Rightarrow> int \<Rightarrow> Window \<Rightarrow> Window" where
  "Window_Lead field offset w =
     w\<lparr>w_function := ''LEAD('' @ field @ '', '' @ Sprintf_d offset @ '')''\<rparr>"

definition Window_FirstValue :: "string \<Rightarrow> Window \<Rightarrow> Window" where
  "Window_FirstValue field w = w\<lparr>w_function := ''FIRST_VALUE('' @ field @ '')''\<rparr>"

definition Window_LastValue :: "string \<Rightarrow> Window \<Rightarrow> Window" where
  "Window_LastValue field w = w\<lparr>w_function := ''LAST_VALUE('' @ field @ '')''\<rparr>"

definition Window_NthValue :: "string \<Rightarrow> int \<Rightarrow> Window \<Rightarrow> Window" where
  "Window_NthValue field n w =
     w\<lparr>w_function := ''NTH_VALUE('' @ field @ '', '' @ Sprintf_d n @ '')''\<rparr>"

definition Window_Ntile :: "int \<Rightarrow> Window \<Rightarrow> Window" where
  "Window_Ntile buckets w = w\<lparr>w_function := ''NTILE('' @ Sprintf_d buckets @ '')''\<rparr>"

definition Window_PercentRank :: "Window \<Rightarrow> Window" where
  "Window_PercentRank w = w\<lparr>w_function := ''PERCENT_RANK()''\<rparr>"

definition Window_CumeDist :: "Window \<Rightarrow> Window" where
  "Window_CumeDist w = w\<lparr>w_function := ''CUME_DIST()''\<rparr>"

definition Window_Over :: "string \<Rightarrow> string \<Rightarrow> Window \<Rightarrow> Window" where
  "Window_Over partitionBy orderBy w =
     (let parts = [];
          parts = (if partitionBy \<noteq> '''' then parts @ [''PARTITION BY '' @ partitionBy]
                   else parts);
          parts = (if orderBy \<noteq> '''' then parts @ [''ORDER BY '' @ orderBy] else parts)
      in w\<lparr>w_over := ''OVER ('' @ strings_Join parts '' '' @ '')''\<rparr>)"

definition Window_As :: "string \<Rightarrow> Window \<Rightarrow> Window" where
  "Window_As a w = w\<lparr>w_alias := a\<rparr>"

definition Window_Build :: "Window \<Rightarrow> string" where
  "Window_Build w =
     (if w_function w = '''' then ''''
      else
        let result = w_function w;
            result = (if w_over w \<noteq> '''' then result @ '' '' @ w_over w else result);
            result = (if w_alias w \<noteq> '''' then result @ '' AS '' @ w_alias w else result)
        in result)"

subsection \<open>The table of aggregate operations\<close>

text \<open>An operation of the aggregate builder with its arguments, and the method of the
  source that each one stands for.\<close>

datatype aggregate_op =
  OpSum string | OpAvg string | OpMin string | OpMax string | OpCount string
  | OpCountDistinct string | OpUniq string | OpUniqExact string
  | OpQuantile "64 word" string | OpMedian string | OpStdDev string | OpVariance string
  | OpAny string | OpArgMin string string | OpArgMax string string
  | OpGroupArray string | OpGroupUniqArray string | OpTopK int string
  | OpTopKWeighted int string string | OpHistogram int string
  | OpCorr string string | OpCovarPop string string | OpCovarSamp string string
  | OpSkewPop string | OpKurtPop string | OpEntropy string
  | OpGeometricMean string | OpHarmonicMean string

fun apply_op :: "(64 word \<Rightarrow> string) \<Rightarrow> aggregate_op \<Rightarrow> Aggregate \<Rightarrow> Aggregate" where
  "apply_op fmt_f (OpSum f) = Aggregate_Sum f"
| "apply_op fmt_f (OpAvg f) = Aggregate_Avg f"
| "apply_op fmt_f (OpMin f) = Aggregate_Min f"
| "apply_op fmt_f (OpMax f) = Aggregate_Max f"
| "apply_op fmt_f (OpCount f) = Aggregate_Count f"
| "apply_op fmt_f (OpCountDistinct f) = Aggregate_CountDistinct f"
| "apply_op fmt_f (OpUniq f) = Aggregate_Uniq f"
| "apply_op fmt_f (OpUniqExact f) = Aggregate_UniqExact f"
| "apply_op fmt_f (OpQuantile level f) = Aggregate_Quantile fmt_f level f"
| "apply_op fmt_f (OpMedian f) = Aggregate_Median f"
| "apply_op fmt_f (OpStdDev f) = Aggregate_StdDev f"
| "apply_op fmt_f (OpVariance f) = Aggregate_Variance f"
| "apply_op fmt_f (OpAny f) = Aggregate_Any f"
| "apply_op fmt_f (OpArgMin a v) = Aggregate_ArgMin a v"
| "apply_op fmt_f (OpArgMax a v) = Aggregate_ArgMax a v"
| "apply_op fmt_f (OpGroupArray f) = Aggregate_GroupArray f"
| "apply_op fmt_f (OpGroupUniqArray f) = Aggregate_GroupUniqArray f"
| "apply_op fmt_f (OpTopK k f) = Aggregate_TopK k f"
| "apply_op fmt_f (OpTopKWeighted k f w) = Aggregate_TopKWeighted k f w"
| "apply_op fmt_f (OpHistogram b f) = Aggregate_Histogram b f"
| "apply_op fmt_f (OpCorr x y) = Aggregate_Corr x y"
| "apply_op fmt_f (OpCovarPop x y) = Aggregate_CovarPop x y"
| "apply_op fmt_f (OpCovarSamp x y) = Aggregate_CovarSamp x y"
| "apply_op fmt_f (OpSkewPop f) = Aggregate_SkewPop f"
| "apply_op fmt_f (OpKurtPop f) = Aggregate_KurtPop f"
| "apply_op fmt_f (OpEntropy f) = Aggregate_Entropy f"
| "apply_op fmt_f (OpGeometricMean f) = Aggregate_GeometricMean f"
| "apply_op fmt_f (OpHarmonicMean f) = Aggregate_HarmonicMean f"

text \<open>The table of the specification: the expression and the alias of each
  operation, as its templates give them.\<close>

fun table_expression :: "(64 word \<Rightarrow> string) \<Rightarrow> aggregate_op \<Rightarrow> string" where
  "table_expression fmt_f (OpSum f) = ''SUM('' @ f @ '')''"
| "table_expression fmt_f (OpAvg f) = ''AVG('' @ f @ '')''"
| "table_expression fmt_f (OpMin f) = ''MIN('' @ f @ '')''"
| "table_expression fmt_f (OpMax f) = ''MAX('' @ f @ '')''"
| "table_expression fmt_f (OpCount f) = (if f = ''*'' then ''COUNT(*)'' else ''COUNT('' @ f @ '')'')"
| "table_expression fmt_f (OpCountDistinct f) = ''COUNT(DISTINCT '' @ f @ '')''"
| "table_expression fmt_f (OpUniq f) = ''uniq('' @ f @ '')''"
| "table_expression fmt_f (OpUniqExact f) = ''uniqExact('' @ f @ '')''"
| "table_expression fmt_f (OpQuantile level f) = ''quantile('' @ fmt_f level @ '')('' @ f @ '')''"
| "table_expression fmt_f (OpMedian f) = ''median('' @ f @ '')''"
| "table_expression fmt_f (OpStdDev f) = ''stddev('' @ f @ '')''"
| "table_expression fmt_f (OpVariance f) = ''varSamp('' @ f @ '')''"
| "table_expression fmt_f (OpAny f) = ''any('' @ f @ '')''"
| "table_expression fmt_f (OpArgMin a v) = ''argMin('' @ a @ '', '' @ v @ '')''"
| "table_expression fmt_f (OpArgMax a v) = ''argMax('' @ a @ '', '' @ v @ '')''"
| "table_expression fmt_f (OpGroupArray f) = ''groupArray('' @ f @ '')''"
| "table_expression fmt_f (OpGroupUniqArray f) = ''groupUniqArray('' @ f @ '')''"
| "table_expression fmt_f (OpTopK k f) = ''topK('' @ Sprintf_d k @ '')('' @ f @ '')''"
| "table_expression fmt_f (OpTopKWeighted k f w) =
     ''topKWeighted('' @ Sprintf_d k @ '')('' @ f @ '', '' @ w @ '')''"
| "table_expression fmt_f (OpHistogram b f) = ''histogram('' @ Sprintf_d b @ '')('' @ f @ '')''"
| "table_expression fmt_f (OpCorr x y) = ''corr('' @ x @ '', '' @ y @ '')''"
| "table_expression fmt_f (OpCovarPop x y) = ''covarPop('' @ x @ '', '' @ y @ '')''"
| "table_expression fmt_f (OpCovarSamp x y) = ''covarSamp('' @ x @ '', '' @ y @ '')''"
| "table_expression fmt_f (OpSkewPop f) = ''skewPop('' @ f @ '')''"
| "table_expression fmt_f (OpKurtPop f) = ''kurtPop('' @ f @ '')''"
| "table_expression fmt_f (OpEntropy f) = ''entropy('' @ f @ '')''"
| "table_expression fmt_f (OpGeometricMean f) = ''geometricMean('' @ f @ '')''"
| "table_expression fmt_f (OpHarmonicMean f) = ''harmonicMean('' @ f @ '')''"

fun table_alias :: "(64 word \<Rightarrow> string) \<Rightarrow> aggregate_op \<Rightarrow> string" where
  "table_alias fmt_f (OpSum f) = ''sum_'' @ f"
| "table_alias fmt_f (OpAvg f) = ''avg_'' @ f"
| "table_alias fmt_f (OpMin f) = ''min_'' @ f"
| "table_alias fmt_f (OpMax f) = ''max_'' @ f"
| "table_alias fmt_f (OpCount f) = (if f = ''*'' then ''count'' else ''count_'' @ f)"
| "table_alias fmt_f (OpCountDistinct f) = ''count_distinct_'' @ f"
| "table_alias fmt_f (OpUniq f) = ''uniq_'' @ f"
| "table_alias fmt_f (OpUniqExact f) = ''uniq_exact_'' @ f"
| "table_alias fmt_f (OpQuantile level f) = ''quantile_'' @ fmt_f level @ ''_'' @ f"
| "table_alias fmt_f (OpMedian f) = ''median_'' @ f"
| "table_alias fmt_f (OpStdDev f) = ''stddev_'' @ f"
| "table_alias fmt_f (OpVariance f) = ''variance_'' @ f"
| "table_alias fmt_f (OpAny f) = ''any_'' @ f"
| "table_alias fmt_f (OpArgMin a v) = ''argmin_'' @ a @ ''_'' @ v"
| "table_alias fmt_f (OpArgMax a v) = ''argmax_'' @ a @ ''_'' @ v"
| "table_alias fmt_f (OpGroupArray f) = ''group_array_'' @ f"
| "table_alias fmt_f (OpGroupUniqArray f) = ''group_uniq_array_'' @ f"
| "table_alias fmt_f (OpTopK k f) = ''topk_'' @ Sprintf_d k @ ''_'' @ f"
| "table_alias fmt_f (OpTopKWeighted k f w) =
     ''topk_weighted_'' @ Sprintf_d k @ ''_'' @ f @ ''_'' @ w"
| "table_alias fmt_f (OpHistogram b f) = ''histogram_'' @ Sprintf_d b @ ''_'' @ f"
| "table_alias fmt_f (OpCorr x y) = ''corr_'' @ x @ ''_'' @ y"
| "table_alias fmt_f (OpCovarPop x y) = ''covar_pop_'' @ x @ ''_'' @ y"
| "table_alias fmt_f (OpCovarSamp x y) = ''covar_samp_'' @ x @ ''_'' @ y"
| "table_alias fmt_f (OpSkewPop f) = ''skew_pop_'' @ f"
| "table_alias fmt_f (OpKurtPop f) = ''kurt_pop_'' @ f"
| "table_alias fmt_f (OpEntropy f) = ''entropy_'' @ f"
| "table_alias fmt_f (OpGeometricMean f) = ''geometric_mean_'' @ f"
| "table_alias fmt_f (OpHarmonicMean f) = ''harmonic_mean_'' @ f"

subsection \<open>Sequences of composition calls\<close>

text \<open>A call of a composition method with its arguments, the method of the source that
  it stands for, and the builder after a sequence of calls.\<close>

datatype call =
  CTable string | CSelect "string list" | CDistinct
  | CWhere string "gval list" | CWhereIn string "gval list" | CWhereNotIn string "gval list"
  | CWhereBetween string gval gval | CWhereLike string string
  | CWhereNull string | CWhereNotNull string
  | CJoin string string "gval list" | CLeftJoin string string "gval list"
  | CRightJoin string string "gval list"
  | CGroupBy "string list" | CHaving string "gval list"
  | COrderBy string "string list" | COrderByAsc string | COrderByDesc string
  | CLimit int | COffset int

fun apply_call :: "call \<Rightarrow> Query \<Rightarrow> Query" where
  "apply_call (CTable t) = Query_Table t"
| "apply_call (CSelect fs) = Query_Select fs"
| "apply_call CDistinct = Query_Distinct"
| "apply_call (CWhere c as) = Query_Where c as"
| "apply_call (CWhereIn f vs) = Query_WhereIn f vs"
| "apply_call (CWhereNotIn f vs) = Query_WhereNotIn f vs"
| "apply_call (CWhereBetween f a b) = Query_WhereBetween f a b"
| "apply_call (CWhereLike f p) = Query_WhereLike f p"
| "apply_call (CWhereNull f) = Query_WhereNull f"
| "apply_call (CWhereNotNull f) = Query_WhereNotNull f"
| "apply_call (CJoin t c as) = Query_Join t c as"
| "apply_call (CLeftJoin t c as) = Query_LeftJoin t c as"
| "apply_call (CRightJoin t c as) = Query_RightJoin t c as"
| "apply_call (CGroupBy fs) = Query_GroupBy fs"
| "apply_call (CHaving c as) = Query_Having c as"
| "apply_call (COrderBy f d) = Query_OrderBy f d"
| "apply_call (COrderByAsc f) = Query_OrderByAsc f"
| "apply_call (COrderByDesc f) = Query_OrderByDesc f"
| "apply_call (CLimit n) = Query_Limit n"
| "apply_call (COffset n) = Query_Offset n"

definition run_calls :: "Query \<Rightarrow> call list \<Rightarrow> Query" where
  "run_calls q cs = foldl (\<lambda>q c. apply_call c q) q cs"

text \<open>The number of placeholder markers in a text.\<close>

definition qmarks :: "string \<Rightarrow> nat" where
  "qmarks s = length (filter (\<lambda>c. c = CHR ''?'') s)"

text \<open>The arguments that a call appends to \<open>args\<close>, and the rank of the clause that
  holds its placeholders in the text of \<open>buildSQL\<close>: the joins stand before the
  predicates, and these before the \<open>HAVING\<close> conditions.\<close>

fun call_args :: "call \<Rightarrow> gval list" where
  "call_args (CWhere c as) = as"
| "call_args (CWhereIn f vs) = vs"
| "call_args (CWhereNotIn f vs) = vs"
| "call_args (CWhereBetween f a b) = [a, b]"
| "call_args (CWhereLike f p) = [Val t_string (PString p)]"
| "call_args (CJoin t c as) = as"
| "call_args (CLeftJoin t c as) = as"
| "call_args (CRightJoin t c as) = as"
| "call_args (CHaving c as) = as"
| "call_args _ = []"

fun emission_rank :: "call \<Rightarrow> nat" where
  "emission_rank (CJoin t c as) = 0"
| "emission_rank (CLeftJoin t c as) = 0"
| "emission_rank (CRightJoin t c as) = 0"
| "emission_rank (CHaving c as) = 2"
| "emission_rank _ = 1"

text \<open>The arguments in the order of their placeholders in the statement: those of the
  joins, of the predicates and of the \<open>HAVING\<close> conditions, each group in the order of
  the calls. A sequence is in emission order when its calls with arguments come in this
  order.\<close>

definition emission_args :: "call list \<Rightarrow> gval list" where
  "emission_args cs =
     concat (map call_args (filter (\<lambda>c. emission_rank c = 0) cs))
     @ concat (map call_args (filter (\<lambda>c. emission_rank c = 1) cs))
     @ concat (map call_args (filter (\<lambda>c. emission_rank c = 2) cs))"

definition in_emission_order :: "call list \<Rightarrow> bool" where
  "in_emission_order cs = sorted (map emission_rank (filter (\<lambda>c. call_args c \<noteq> []) cs))"

text \<open>A call matches its placeholders when it carries as many arguments as its own
  text has markers, and a text that carries no arguments has no marker.\<close>

fun placeholders_match :: "call \<Rightarrow> bool" where
  "placeholders_match (CTable t) = (qmarks t = 0)"
| "placeholders_match (CSelect fs) = list_all (\<lambda>f. qmarks f = 0) fs"
| "placeholders_match CDistinct = True"
| "placeholders_match (CWhere c as) = (qmarks c = length as)"
| "placeholders_match (CWhereIn f vs) = (qmarks f = 0)"
| "placeholders_match (CWhereNotIn f vs) = (qmarks f = 0)"
| "placeholders_match (CWhereBetween f a b) = (qmarks f = 0)"
| "placeholders_match (CWhereLike f p) = (qmarks f = 0)"
| "placeholders_match (CWhereNull f) = (qmarks f = 0)"
| "placeholders_match (CWhereNotNull f) = (qmarks f = 0)"
| "placeholders_match (CJoin t c as) = (qmarks t + qmarks c = length as)"
| "placeholders_match (CLeftJoin t c as) = (qmarks t + qmarks c = length as)"
| "placeholders_match (CRightJoin t c as) = (qmarks t + qmarks c = length as)"
| "placeholders_match (CGroupBy fs) = list_all (\<lambda>f. qmarks f = 0) fs"
| "placeholders_match (CHaving c as) = (qmarks c = length as)"
| "placeholders_match (COrderBy f d) = (qmarks f = 0 \<and> list_all (\<lambda>x. qmarks x = 0) (take 1 d))"
| "placeholders_match (COrderByAsc f) = (qmarks f = 0)"
| "placeholders_match (COrderByDesc f) = (qmarks f = 0)"
| "placeholders_match (CLimit n) = True"
| "placeholders_match (COffset n) = True"

text \<open>The markers of a list of texts, and what the builder keeps of the equality of
  markers and arguments after every call.\<close>

definition qsum :: "string list \<Rightarrow> nat" where
  "qsum xs = sum_list (map qmarks xs)"

definition placeholders_inv :: "Query \<Rightarrow> bool" where
  "placeholders_inv q \<longleftrightarrow>
     length (q_args q) = qsum (q_joins q) + qsum (q_wheres q) + qsum (q_having q)
     \<and> qmarks (q_table q) = 0 \<and> qsum (q_selects q) = 0 \<and> qsum (q_groupBy q) = 0
     \<and> qsum (q_orderBy q) = 0"


text \<open>
  What the connection does with the statement and its arguments: the markers of the
  text take the arguments from left to right, the first marker the first argument.
  \<open>bind_args\<close> writes the statement with every argument in the place of its marker;
  \<open>lit\<close> is the way an argument is written. A marker for which no argument is left
  stays.
\<close>

fun bind_args :: "(gval \<Rightarrow> string) \<Rightarrow> string \<Rightarrow> gval list \<Rightarrow> string" where
  "bind_args lit [] as = []"
| "bind_args lit (c # s) as =
     (if c = CHR ''?''
      then (case as of [] \<Rightarrow> c # bind_args lit s [] | a # rest \<Rightarrow> lit a @ bind_args lit s rest)
      else c # bind_args lit s as)"

text \<open>
  A call with its own arguments written into its own text, and no arguments left: a
  join with the arguments in its table and condition, a \<open>HAVING\<close> condition with its
  arguments, and a call that appends one predicate as \<open>Where\<close> of that predicate with
  the arguments of the call in it. Every other call stays as it is.
\<close>

fun inline_args :: "(gval \<Rightarrow> string) \<Rightarrow> call \<Rightarrow> call" where
  "inline_args lit (CJoin t c as) =
     CJoin (bind_args lit t (take (qmarks t) as)) (bind_args lit c (drop (qmarks t) as)) []"
| "inline_args lit (CLeftJoin t c as) =
     CLeftJoin (bind_args lit t (take (qmarks t) as)) (bind_args lit c (drop (qmarks t) as)) []"
| "inline_args lit (CRightJoin t c as) =
     CRightJoin (bind_args lit t (take (qmarks t) as)) (bind_args lit c (drop (qmarks t) as)) []"
| "inline_args lit (CHaving c as) = CHaving (bind_args lit c as) []"
| "inline_args lit c =
     (case q_wheres (apply_call c NewQuery) of
        [w] \<Rightarrow> CWhere (bind_args lit w (call_args c)) []
      | _ \<Rightarrow> c)"

text \<open>The fields of the builder that hold no text with arguments.\<close>

definition other_fields ::
  "Query \<Rightarrow> string \<times> string list \<times> string list \<times> string list \<times> int \<times> int \<times> bool" where
  "other_fields q =
     (q_table q, q_selects q, q_groupBy q, q_orderBy q, q_limit q, q_offset q, q_distinct q)"

text \<open>A way to write an argument: an integer in decimal, a string between single
  quotes.\<close>

definition example_lit :: "gval \<Rightarrow> string" where
  "example_lit v =
     (case v of
        Val t (PInt i) \<Rightarrow> Sprintf_d i
      | Val t (PString s) \<Rightarrow> [CHR 0x27] @ s @ [CHR 0x27]
      | _ \<Rightarrow> ''NULL'')"
subsection \<open>Mapper: what the properties speak of\<close>



text \<open>\<open>reflect.TypeOf\<close>, and the combinations of a field type and a value type for which
  \<open>SetFieldValue\<close> has a case: the same type, any value for a field of kind string, and
  the case labels of its type switches for the integer, float and boolean kinds.\<close>

definition TypeOf :: "gval \<Rightarrow> gtype option" where
  "TypeOf v = (case v of NilValue \<Rightarrow> None | Val t p \<Rightarrow> Some t)"

definition recognized_combination :: "gtype \<Rightarrow> gtype option \<Rightarrow> bool" where
  "recognized_combination fieldType valueType =
     (valueType = Some fieldType \<or>
      (case fieldType of
         GoType n k \<Rightarrow>
           k = KString
           \<or> (k \<in> {KInt, KInt8, KInt16, KInt32, KInt64, KUint, KUint8, KUint16, KUint32, KUint64}
              \<and> valueType \<in> {Some t_int64, Some t_int32, Some t_int16, Some t_int8,
                  Some t_uint64, Some t_uint32, Some t_uint16, Some t_uint8, Some t_string})
           \<or> (k \<in> {KFloat32, KFloat64}
              \<and> valueType \<in> {Some t_float64, Some t_float32, Some t_string})
           \<or> (k = KBool \<and> valueType \<in> {Some t_bool, Some t_string})
       | GoSlice n elem \<Rightarrow> False
       | GoArray n elem \<Rightarrow> False))"

subsection \<open>Examples\<close>

text \<open>
  The struct \<open>User\<close> of the examples of the repository, with three of its fields and its
  method \<open>TableName\<close>; a struct of the same table name with other fields; the descriptor
  that \<open>ParseStruct\<close> derives from \<open>User\<close>; a struct without fields and without the method.
\<close>

definition example_user :: model where
  "example_user =
     \<lparr>m_ptr = True,
      m_shape = Struct ''User''
        [\<lparr>f_Name = ''ID'', f_Type = t_uint32,
          f_Tag = [(''ch'', ''id''), (''ch_type'', ''UInt32''), (''ch_pk'', ''true'')],
          f_Exported = True, f_Value = PInt 7\<rparr>,
         \<lparr>f_Name = ''Name'', f_Type = t_string, f_Tag = [(''ch'', ''name'')],
          f_Exported = True, f_Value = PString ''Ann''\<rparr>,
         \<lparr>f_Name = ''Age'', f_Type = t_uint8, f_Tag = [],
          f_Exported = True, f_Value = PInt 30\<rparr>],
      m_TableName = Some ''users''\<rparr>"


definition example_user_info :: TableInfo where
  "example_user_info =
     \<lparr>ti_Name = ''users'',
      ti_Fields =
        [\<lparr>fi_Name = ''id'', fi_Type = ''UInt32'', fi_Tag = '''', fi_IsPK = True,
          fi_IsAuto = False, fi_Nullable = False\<rparr>,
         \<lparr>fi_Name = ''name'', fi_Type = ''String'', fi_Tag = '''', fi_IsPK = False,
          fi_IsAuto = False, fi_Nullable = False\<rparr>,
         \<lparr>fi_Name = ''Age'', fi_Type = ''UInt32'', fi_Tag = '''', fi_IsPK = False,
          fi_IsAuto = False, fi_Nullable = False\<rparr>],
      ti_Engine = ''MergeTree'', ti_Options = []\<rparr>"

definition example_empty :: model where
  "example_empty = \<lparr>m_ptr = True, m_shape = Struct ''Empty'' [], m_TableName = None\<rparr>"

text \<open>A row with a value for every destination, and a row whose \<open>Scan\<close> fails.\<close>

definition one_row :: row where
  "one_row n = Inr (replicate n NilValue)"

definition failed_row :: row where
  "failed_row n = Inl ''connection refused''"

text \<open>A struct whose primary key is the column \<open>session_id\<close>.\<close>

definition example_session :: model where
  "example_session =
     \<lparr>m_ptr = True,
      m_shape = Struct ''Session''
        [\<lparr>f_Name = ''SessionID'', f_Type = t_string,
          f_Tag = [(''ch'', ''session_id''), (''ch_pk'', ''true'')],
          f_Exported = True, f_Value = PString ''''\<rparr>],
      m_TableName = Some ''sessions''\<rparr>"

section \<open>Properties\<close>

subsection \<open>Aggregate builder\<close>

lemmas Aggregate_defs =
  Aggregate_Sum_def Aggregate_Avg_def Aggregate_Min_def Aggregate_Max_def Aggregate_Count_def
  Aggregate_CountDistinct_def Aggregate_Uniq_def Aggregate_UniqExact_def
  Aggregate_Quantile_def Aggregate_Median_def Aggregate_StdDev_def Aggregate_Variance_def
  Aggregate_Any_def Aggregate_ArgMin_def Aggregate_ArgMax_def Aggregate_GroupArray_def
  Aggregate_GroupUniqArray_def Aggregate_TopK_def Aggregate_TopKWeighted_def
  Aggregate_Histogram_def Aggregate_Corr_def Aggregate_CovarPop_def Aggregate_CovarSamp_def
  Aggregate_SkewPop_def Aggregate_KurtPop_def Aggregate_Entropy_def
  Aggregate_GeometricMean_def Aggregate_HarmonicMean_def

text \<open>The \<open>float64\<close> nearest to 0.95 has the bits \<open>0x3FEE666666666666\<close>.\<close>

lemma unat_095: "unat (0x3FEE666666666666 :: 64 word) = 4606732058837280358"
  by simp

lemma Sprintf_f_095: "Sprintf_f 0x3FEE666666666666 = ''0.950000''"
  unfolding Sprintf_f_def unat_095 Let_def
  by (simp add: round_half_even_def Let_def digits.simps digit_char_def pad_left_def)

text \<open>The verb \<open>%f\<close> writes six digits after the point for every finite number.\<close>

lemma length_digits: "0 < k \<Longrightarrow> n < 10 ^ k \<Longrightarrow> length (digits n) \<le> k"
proof (induction n arbitrary: k rule: digits.induct)
  case (1 n)
  show ?case
  proof (cases "n < 10")
    case True
    with 1(2) show ?thesis by (subst digits.simps) simp
  next
    case False
    from 1(3) False have "k \<noteq> 1" by auto
    with 1(2) obtain j where j: "k = Suc j" "0 < j" by (cases k) auto
    with 1(3) have "n div 10 < 10 ^ j" by (simp add: less_mult_imp_div_less mult.commute)
    with 1(1) [OF False j(2)] have "length (digits (n div 10)) \<le> j" by simp
    with False j show ?thesis by (subst digits.simps) simp
  qed
qed

lemma length_pad_left: "length s \<le> w \<Longrightarrow> length (pad_left w s) = w"
  by (simp add: pad_left_def)

lemma Sprintf_f_six_decimals:
  assumes "finite_float64 w"
  shows "\<exists>whole frac. Sprintf_f w = whole @ ''.'' @ frac \<and> length frac = 6"
proof -
  define b where "b = unat w"
  define e where "e = (b div 2 ^ 52) mod 2048"
  define mant where "mant = (if e = 0 then b mod 2 ^ 52 else b mod 2 ^ 52 + 2 ^ 52)"
  define ex where "ex = (if e = 0 then 1 else e)"
  define scaled where "scaled = (if 1075 \<le> ex then mant * 2 ^ (ex - 1075) * 1000000
                         else round_half_even (mant * 1000000) (2 ^ (1075 - ex)))"
  define sgn where "sgn = (if 2 ^ 63 \<le> b then ''-'' else '''')"
  from assms have f: "e \<noteq> 2047"
    by (simp add: finite_float64_def e_def b_def)
  have "Sprintf_f w =
      (sgn @ digits (scaled div 1000000)) @ ''.'' @ pad_left 6 (digits (scaled mod 1000000))"
    unfolding Sprintf_f_def Let_def
    unfolding b_def [symmetric] e_def [symmetric]
    unfolding mant_def [symmetric] ex_def [symmetric]
    unfolding scaled_def [symmetric] sgn_def [symmetric]
    using f by simp
  moreover have "length (digits (scaled mod 1000000)) \<le> 6"
    by (rule length_digits) simp_all
  then have "length (pad_left 6 (digits (scaled mod 1000000))) = 6"
    by (rule length_pad_left)
  ultimately show ?thesis by blast
qed

text \<open>
  C8: every operation of the aggregate builder appends exactly one projection string,
  the expression of the table, \<open>as\<close>, and the alias of the table. \<open>Quantile\<close> gets the
  alias \<open>quantile_\<close>, the level as the verb \<open>%f\<close> writes it, \<open>_\<close> and the field; for a
  finite level that is the level with six digits after the point, so that
  \<open>Quantile(0.95, "score")\<close> gets \<open>quantile_0.950000_score\<close>; \<open>Count("*")\<close> appends
  \<open>COUNT(*)\<close> with the alias \<open>count\<close>, without a suffix.
\<close>

theorem aggregate_alias_table:
  "funcs (apply_op fmt_f op a) =
     funcs a @ [table_expression fmt_f op @ '' as '' @ table_alias fmt_f op]
   \<and> funcs (Aggregate_Quantile fmt_f level field a) =
     funcs a @ [''quantile('' @ fmt_f level @ '')('' @ field @ '') as ''
                @ ''quantile_'' @ fmt_f level @ ''_'' @ field]
   \<and> (finite_float64 level \<longrightarrow>
        (\<exists>whole frac. length frac = 6 \<and>
           funcs (Aggregate_Quantile Sprintf_f level field a) =
             funcs a @ [''quantile('' @ whole @ ''.'' @ frac @ '')('' @ field @ '') as ''
                        @ ''quantile_'' @ whole @ ''.'' @ frac @ ''_'' @ field]))
   \<and> funcs (Aggregate_Quantile Sprintf_f 0x3FEE666666666666 ''score'' a) =
     funcs a @ [''quantile(0.950000)(score) as quantile_0.950000_score'']
   \<and> funcs (Aggregate_Count ''*'' a) = funcs a @ [''COUNT(*) as count'']"
proof (intro conjI impI)
  assume "finite_float64 level"
  then obtain whole frac where "Sprintf_f level = whole @ ''.'' @ frac" and "length frac = 6"
    using Sprintf_f_six_decimals by blast
  then show "\<exists>whole frac. length frac = 6 \<and>
           funcs (Aggregate_Quantile Sprintf_f level field a) =
             funcs a @ [''quantile('' @ whole @ ''.'' @ frac @ '')('' @ field @ '') as ''
                        @ ''quantile_'' @ whole @ ''.'' @ frac @ ''_'' @ field]"
    by (auto simp: Aggregate_Quantile_def)
next
  show "funcs (apply_op fmt_f op a) =
     funcs a @ [table_expression fmt_f op @ '' as '' @ table_alias fmt_f op]"
    by (cases op) (simp_all add: Aggregate_defs)
  show "funcs (Aggregate_Quantile fmt_f level field a) =
     funcs a @ [''quantile('' @ fmt_f level @ '')('' @ field @ '') as ''
                @ ''quantile_'' @ fmt_f level @ ''_'' @ field]"
    by (simp add: Aggregate_Quantile_def)
  show "funcs (Aggregate_Quantile Sprintf_f 0x3FEE666666666666 ''score'' a) =
     funcs a @ [''quantile(0.950000)(score) as quantile_0.950000_score'']"
    by (simp add: Aggregate_Quantile_def Sprintf_f_095)
  show "funcs (Aggregate_Count ''*'' a) = funcs a @ [''COUNT(*) as count'']"
    by (simp add: Aggregate_Count_def)
qed

theorem aggregate_alias_table_witness:
  "funcs (apply_op Sprintf_f (OpTopK 10 ''url'') (Aggregate_Count ''*'' NewAggregate)) =
     [''COUNT(*) as count'', ''topK(10)(url) as topk_10_url'']"
  using aggregate_alias_table
    [of Sprintf_f "OpTopK 10 ''url''" "Aggregate_Count ''*'' NewAggregate"]
  by (simp add: NewAggregate_def Sprintf_d_def digits.simps digit_char_def Aggregate_Count_def)

subsection \<open>Window builder\<close>

text \<open>
  C4, as the specification states it, fails: \<open>Over\<close> called with two empty strings
  leaves the clause \<open>OVER ()\<close> in the expression that \<open>Build\<close> returns.
\<close>

theorem Window_Over_empty_counterexample:
  "Window_Build (Window_Over '''' '''' (Window_RowNumber NewWindow)) = ''ROW_NUMBER() OVER ()''
   \<and> strings_Contains
        (Window_Build (Window_Over '''' '''' (Window_RowNumber NewWindow))) ''OVER''"
  by (simp add: Window_Build_def Window_Over_def Window_RowNumber_def NewWindow_def)

text \<open>
  C4, amended: \<open>Over\<close> always sets a clause \<open>OVER (...)\<close>. Between the parentheses stands
  nothing when both strings are empty, the one sub-clause when one string is empty, and
  \<open>PARTITION BY\<close> before \<open>ORDER BY\<close> otherwise. \<open>Build\<close> puts the clause after the function,
  and leaves it out only when the field \<open>over\<close> is empty, that is when \<open>Over\<close> was never
  called.
\<close>

theorem Window_Over_clause:
  "w_over (Window_Over p ob w) =
     ''OVER ('' @
       (if p = '''' then (if ob = '''' then '''' else ''ORDER BY '' @ ob)
        else if ob = '''' then ''PARTITION BY '' @ p
        else ''PARTITION BY '' @ p @ '' ORDER BY '' @ ob) @ '')''
   \<and> Window_Build (Window_Over p ob w) =
       (if w_function w = '''' then ''''
        else w_function w @ '' '' @ w_over (Window_Over p ob w)
             @ (if w_alias w = '''' then '''' else '' AS '' @ w_alias w))
   \<and> Window_Build (w\<lparr>w_over := ''''\<rparr>) =
       (if w_function w = '''' then ''''
        else w_function w @ (if w_alias w = '''' then '''' else '' AS '' @ w_alias w))"
  by (simp add: Window_Over_def Window_Build_def Let_def)

theorem Window_Over_clause_witness:
  "Window_Build (Window_Over '''' ''score DESC'' (Window_As ''r'' (Window_Rank NewWindow))) =
     ''RANK() OVER (ORDER BY score DESC) AS r''
   \<and> Window_Build (Window_Over ''user_id'' '''' (Window_Rank NewWindow)) =
     ''RANK() OVER (PARTITION BY user_id)''
   \<and> Window_Build (Window_Over '''' '''' (Window_Rank NewWindow)) = ''RANK() OVER ()''
   \<and> Window_Build (Window_Rank NewWindow) = ''RANK()''"
  using Window_Over_clause [of "''''" "''score DESC''" "Window_As ''r'' (Window_Rank NewWindow)"]
    Window_Over_clause [of "''user_id''" "''''" "Window_Rank NewWindow"]
    Window_Over_clause [of "''''" "''''" "Window_Rank NewWindow"]
  by (simp add: Window_As_def Window_Rank_def NewWindow_def Window_Build_def)

subsection \<open>Query builder: placeholders and arguments\<close>

lemma qmarks_simps [simp]:
  "qmarks [] = 0"
  "qmarks (c # s) = (if c = CHR ''?'' then Suc (qmarks s) else qmarks s)"
  "qmarks (a @ b) = qmarks a + qmarks b"
  by (simp_all add: qmarks_def)

lemma qsum_simps [simp]:
  "qsum [] = 0"
  "qsum (x # xs) = qmarks x + qsum xs"
  "qsum (xs @ ys) = qsum xs + qsum ys"
  by (simp_all add: qsum_def)

lemma qmarks_Join:
  "qmarks sep = 0 \<Longrightarrow> qmarks (strings_Join xs sep) = qsum xs"
  by (induction xs sep rule: strings_Join.induct) simp_all

lemma qsum_replicate: "qsum (replicate n ''?'') = n"
  by (induction n) simp_all

lemma qsum_zero: "list_all (\<lambda>f. qmarks f = 0) fs \<Longrightarrow> qsum fs = 0"
  by (induction fs) simp_all

lemma digit_char_no_qmark: "digit_char d \<noteq> CHR ''?''"
proof -
  have "d mod 10 < length ''0123456789''" by simp
  then have "''0123456789'' ! (d mod 10) \<in> set ''0123456789''"
    by (rule nth_mem)
  then show ?thesis unfolding digit_char_def by auto
qed

lemma qmarks_digits: "qmarks (digits n) = 0"
proof (induction n rule: digits.induct)
  case (1 n)
  show ?case
  proof (cases "n < 10")
    case True
    then show ?thesis by (subst digits.simps) (simp add: digit_char_no_qmark)
  next
    case False
    with 1 show ?thesis by (subst digits.simps) (simp add: digit_char_no_qmark)
  qed
qed

lemma qmarks_Sprintf_d: "qmarks (Sprintf_d i) = 0"
  by (simp add: Sprintf_d_def qmarks_digits)

lemma upper_char_qmark: "upper_char c = CHR ''?'' \<longleftrightarrow> c = CHR ''?''"
  by (auto simp: upper_char_def split: option.splits if_splits)

lemma qmarks_ToUpper: "qmarks (strings_ToUpper s) = qmarks s"
  by (induction s) (simp_all add: strings_ToUpper_def upper_char_qmark)

lemma qmarks_buildSQL:
  "qmarks (Query_buildSQL q) =
     qsum (q_selects q) + qmarks (q_table q) + qsum (q_joins q) + qsum (q_wheres q)
     + qsum (q_groupBy q) + qsum (q_having q) + qsum (q_orderBy q)"
  by (simp add: Query_buildSQL_def Let_def qmarks_Join qmarks_Sprintf_d)

lemma args_apply_call: "q_args (apply_call c q) = q_args q @ call_args c"
  by (cases c)
    (simp_all add: Query_Table_def Query_Select_def Query_Distinct_def Query_Where_def
      Query_WhereIn_def Query_WhereNotIn_def Query_WhereBetween_def Query_WhereLike_def
      Query_WhereNull_def Query_WhereNotNull_def Query_Join_def Query_LeftJoin_def
      Query_RightJoin_def Query_GroupBy_def Query_Having_def Query_OrderBy_def
      Query_OrderByAsc_def Query_OrderByDesc_def Query_Limit_def Query_Offset_def Let_def)

lemma args_run_calls: "q_args (run_calls q cs) = q_args q @ concat (map call_args cs)"
  unfolding run_calls_def
  by (induction cs arbitrary: q) (simp_all add: args_apply_call)

lemma inv_NewQuery: "placeholders_inv NewQuery"
  by (simp add: placeholders_inv_def NewQuery_def)

lemma inv_apply_call:
  "placeholders_inv q \<Longrightarrow> placeholders_match c \<Longrightarrow> placeholders_inv (apply_call c q)"
  by (cases c)
    (auto simp: placeholders_inv_def Query_Table_def Query_Select_def Query_Distinct_def
      Query_Where_def Query_WhereIn_def Query_WhereNotIn_def Query_WhereBetween_def
      Query_WhereLike_def Query_WhereNull_def Query_WhereNotNull_def Query_Join_def
      Query_LeftJoin_def Query_RightJoin_def Query_GroupBy_def Query_Having_def
      Query_OrderBy_def Query_OrderByAsc_def Query_OrderByDesc_def Query_Limit_def
      Query_Offset_def Let_def qmarks_Join qsum_replicate qsum_zero qmarks_ToUpper
      split: list.splits)

lemma inv_run_calls:
  "placeholders_inv q \<Longrightarrow> list_all placeholders_match cs \<Longrightarrow>
   placeholders_inv (run_calls q cs)"
  unfolding run_calls_def
  by (induction cs arbitrary: q) (simp_all add: inv_apply_call)

lemma inv_count: "placeholders_inv q \<Longrightarrow> length (q_args q) = qmarks (Query_buildSQL q)"
  by (simp add: placeholders_inv_def qmarks_buildSQL)

lemma concat_no_args:
  "concat (map call_args (filter P (filter (\<lambda>c. call_args c \<noteq> []) cs))) =
   concat (map call_args (filter P cs))"
  by (induction cs) simp_all

lemma sorted_partition:
  "sorted (map emission_rank cs) \<Longrightarrow>
   filter (\<lambda>c. emission_rank c = 0) cs @ filter (\<lambda>c. emission_rank c = 1) cs
   @ filter (\<lambda>c. emission_rank c = 2) cs = cs"
proof (induction cs)
  case Nil
  then show ?case by simp
next
  case (Cons c cs)
  have r: "emission_rank c = 0 \<or> emission_rank c = 1 \<or> emission_rank c = 2"
    by (cases c) simp_all
  from Cons.prems have le: "\<forall>x \<in> set cs. emission_rank c \<le> emission_rank x"
    by simp
  from Cons have ih: "filter (\<lambda>c. emission_rank c = 0) cs @ filter (\<lambda>c. emission_rank c = 1) cs
   @ filter (\<lambda>c. emission_rank c = 2) cs = cs" by simp
  from r show ?case
  proof (elim disjE)
    assume "emission_rank c = 0"
    then show ?thesis using ih by simp
  next
    assume c1: "emission_rank c = 1"
    with le have "filter (\<lambda>c. emission_rank c = 0) cs = []"
      by (auto simp: filter_empty_conv)
    with c1 ih show ?thesis by simp
  next
    assume c2: "emission_rank c = 2"
    with le have "filter (\<lambda>c. emission_rank c = 0) cs = []"
      and "filter (\<lambda>c. emission_rank c = 1) cs = []"
      by (auto simp: filter_empty_conv)
    with c2 ih show ?thesis by simp
  qed
qed

lemma emission_args_in_order:
  assumes "in_emission_order cs"
  shows "emission_args cs = concat (map call_args cs)"
proof -
  let ?ys = "filter (\<lambda>c. call_args c \<noteq> []) cs"
  have 1: "emission_args cs =
     concat (map call_args (filter (\<lambda>c. emission_rank c = 0) ?ys))
     @ concat (map call_args (filter (\<lambda>c. emission_rank c = 1) ?ys))
     @ concat (map call_args (filter (\<lambda>c. emission_rank c = 2) ?ys))"
    by (simp only: emission_args_def concat_no_args)
  have 2: "filter (\<lambda>c. emission_rank c = 0) ?ys @ filter (\<lambda>c. emission_rank c = 1) ?ys
     @ filter (\<lambda>c. emission_rank c = 2) ?ys = ?ys"
    using assms unfolding in_emission_order_def by (rule sorted_partition)
  have 3: "concat (map call_args ?ys) = concat (map call_args cs)"
    using concat_no_args [of "\<lambda>c. True" cs] by simp
  have "emission_args cs =
     concat (map call_args (filter (\<lambda>c. emission_rank c = 0) ?ys
       @ filter (\<lambda>c. emission_rank c = 1) ?ys @ filter (\<lambda>c. emission_rank c = 2) ?ys))"
    by (simp only: 1 map_append concat_append)
  then show ?thesis by (simp only: 2 3)
qed

text \<open>Binding the arguments: a text without markers stays, and a text of two parts
  gives the first part as many arguments as it has markers.\<close>

lemma bind_no_args [simp]: "bind_args lit s [] = s"
  by (induction s) simp_all

lemma bind_no_marks: "qmarks s = 0 \<Longrightarrow> bind_args lit s as = s"
  by (induction s) (simp_all split: if_splits)

lemma bind_take_drop:
  "bind_args lit (a @ b) as =
   bind_args lit a (take (qmarks a) as) @ bind_args lit b (drop (qmarks a) as)"
  by (induction a arbitrary: as) (auto split: list.splits)

lemma bind_append:
  "qmarks a = length g \<Longrightarrow> bind_args lit (a @ b) (g @ h) = bind_args lit a g @ bind_args lit b h"
  using bind_take_drop [of lit a b "g @ h"] by simp

lemma bind_Join:
  "\<forall>p \<in> set ps. qmarks (fst p) = length (snd p) \<Longrightarrow> qmarks sep = 0 \<Longrightarrow>
   bind_args lit (strings_Join (map fst ps) sep) (concat (map snd ps)) =
   strings_Join (map (\<lambda>p. bind_args lit (fst p) (snd p)) ps) sep"
proof (induction ps rule: induct_list012)
  case 1
  then show ?case by simp
next
  case (2 x)
  then show ?case by simp
next
  case (3 x y zs)
  from 3(3) have x: "qmarks (fst x) = length (snd x)" by simp
  from 3(4) have s: "qmarks sep = length ([] :: gval list)" by simp
  have "bind_args lit (fst x @ sep @ strings_Join (map fst (y # zs)) sep)
          (snd x @ [] @ concat (map snd (y # zs))) =
        bind_args lit (fst x) (snd x) @ bind_args lit sep []
          @ bind_args lit (strings_Join (map fst (y # zs)) sep) (concat (map snd (y # zs)))"
    by (simp only: bind_append [OF x] bind_append [OF s])
  with 3 show ?case by simp
qed


text \<open>The clause that a call appends to the joins, to the predicates or to the \<open>HAVING\<close>
  conditions does not depend on the builder.\<close>

lemmas Query_ops_defs =
  Query_Table_def Query_Select_def Query_Distinct_def Query_Where_def
  Query_WhereIn_def Query_WhereNotIn_def Query_WhereBetween_def Query_WhereLike_def
  Query_WhereNull_def Query_WhereNotNull_def Query_Join_def Query_LeftJoin_def
  Query_RightJoin_def Query_GroupBy_def Query_Having_def Query_OrderBy_def
  Query_OrderByAsc_def Query_OrderByDesc_def Query_Limit_def Query_Offset_def

lemma joins_apply_call:
  "q_joins (apply_call c q) = q_joins q @ q_joins (apply_call c NewQuery)"
  by (cases c) (simp_all add: Query_ops_defs NewQuery_def Let_def)

lemma wheres_apply_call:
  "q_wheres (apply_call c q) = q_wheres q @ q_wheres (apply_call c NewQuery)"
  by (cases c) (simp_all add: Query_ops_defs NewQuery_def Let_def)

lemma having_apply_call:
  "q_having (apply_call c q) = q_having q @ q_having (apply_call c NewQuery)"
  by (cases c) (simp_all add: Query_ops_defs NewQuery_def Let_def)

lemma joins_run_calls:
  "q_joins (run_calls q cs) =
   q_joins q @ concat (map (\<lambda>c. q_joins (apply_call c NewQuery)) cs)"
  unfolding run_calls_def
proof (induction cs arbitrary: q)
  case Nil
  then show ?case by simp
next
  case (Cons c cs)
  then show ?case using joins_apply_call [of c q] by simp
qed

lemma wheres_run_calls:
  "q_wheres (run_calls q cs) =
   q_wheres q @ concat (map (\<lambda>c. q_wheres (apply_call c NewQuery)) cs)"
  unfolding run_calls_def
proof (induction cs arbitrary: q)
  case Nil
  then show ?case by simp
next
  case (Cons c cs)
  then show ?case using wheres_apply_call [of c q] by simp
qed

lemma having_run_calls:
  "q_having (run_calls q cs) =
   q_having q @ concat (map (\<lambda>c. q_having (apply_call c NewQuery)) cs)"
  unfolding run_calls_def
proof (induction cs arbitrary: q)
  case Nil
  then show ?case by simp
next
  case (Cons c cs)
  then show ?case using having_apply_call [of c q] by simp
qed

text \<open>A call with its arguments written in appends the clause of the call with these
  arguments bound, and changes the other fields as the call does.\<close>

lemma joins_inline:
  "q_joins (apply_call (inline_args lit c) NewQuery) =
   map (\<lambda>w. bind_args lit w (call_args c)) (q_joins (apply_call c NewQuery))"
  by (cases c)
    (simp_all add: Query_ops_defs NewQuery_def Let_def bind_take_drop split: list.splits)

lemma wheres_inline:
  "q_wheres (apply_call (inline_args lit c) NewQuery) =
   map (\<lambda>w. bind_args lit w (call_args c)) (q_wheres (apply_call c NewQuery))"
  by (cases c)
    (simp_all add: Query_ops_defs NewQuery_def Let_def split: list.splits)

lemma having_inline:
  "q_having (apply_call (inline_args lit c) NewQuery) =
   map (\<lambda>w. bind_args lit w (call_args c)) (q_having (apply_call c NewQuery))"
  by (cases c)
    (simp_all add: Query_ops_defs NewQuery_def Let_def split: list.splits)

lemma other_inline:
  "other_fields q' = other_fields q \<Longrightarrow>
   other_fields (apply_call (inline_args lit c) q') = other_fields (apply_call c q)"
  by (cases c)
    (simp_all add: other_fields_def Query_ops_defs NewQuery_def Let_def split: list.splits)

lemma other_run_inline:
  "other_fields q' = other_fields q \<Longrightarrow>
   other_fields (run_calls q' (map (inline_args lit) cs)) = other_fields (run_calls q cs)"
  unfolding run_calls_def
  by (induction cs arbitrary: q q') (simp_all add: other_inline)


text \<open>The statement of a builder whose clauses are paired with their arguments: binding
  the arguments of the joins, then of the predicates, then of the \<open>HAVING\<close> conditions
  gives every clause its own arguments.\<close>

lemma qsum_pairs:
  "\<forall>p \<in> set ps. qmarks (fst p) = length (snd p) \<Longrightarrow>
   qsum (map fst ps) = length (concat (map snd ps))"
  by (induction ps) simp_all

lemma bind_buildSQL:
  assumes o: "other_fields q' = other_fields q"
    and n: "qmarks (q_table q) = 0" "qsum (q_selects q) = 0" "qsum (q_groupBy q) = 0"
      "qsum (q_orderBy q) = 0"
    and j: "q_joins q = map fst js"
      "q_joins q' = map (\<lambda>p. bind_args lit (fst p) (snd p)) js"
      "\<forall>p \<in> set js. qmarks (fst p) = length (snd p)"
    and w: "q_wheres q = map fst ws"
      "q_wheres q' = map (\<lambda>p. bind_args lit (fst p) (snd p)) ws"
      "\<forall>p \<in> set ws. qmarks (fst p) = length (snd p)"
    and h: "q_having q = map fst hs"
      "q_having q' = map (\<lambda>p. bind_args lit (fst p) (snd p)) hs"
      "\<forall>p \<in> set hs. qmarks (fst p) = length (snd p)"
  shows "bind_args lit (Query_buildSQL q)
           (concat (map snd js) @ concat (map snd ws) @ concat (map snd hs)) =
         Query_buildSQL q'"
proof -
  define P :: "(string \<times> gval list) list" where "P =
     [(''SELECT '' @ (if q_distinct q then ''DISTINCT '' else [])
         @ strings_Join (q_selects q) '', '', [])]
     @ (if q_table q \<noteq> [] then [(''FROM '' @ q_table q, [])] else [])
     @ (if js \<noteq> [] then [(strings_Join (map fst js) '' '', concat (map snd js))] else [])
     @ (if ws \<noteq> []
        then [(''WHERE '' @ strings_Join (map fst ws) '' AND '', concat (map snd ws))] else [])
     @ (if q_groupBy q \<noteq> []
        then [(''GROUP BY '' @ strings_Join (q_groupBy q) '', '', [])] else [])
     @ (if hs \<noteq> []
        then [(''HAVING '' @ strings_Join (map fst hs) '' AND '', concat (map snd hs))] else [])
     @ (if q_orderBy q \<noteq> []
        then [(''ORDER BY '' @ strings_Join (q_orderBy q) '', '', [])] else [])
     @ (if q_limit q > 0 then [(''LIMIT '' @ Sprintf_d (q_limit q), [])] else [])
     @ (if q_offset q > 0 then [(''OFFSET '' @ Sprintf_d (q_offset q), [])] else [])"
  have 1: "Query_buildSQL q = strings_Join (map fst P) '' ''"
    by (simp add: Query_buildSQL_def Let_def P_def j w h if_distrib [of "map fst"])
  have 2: "concat (map snd P) =
      concat (map snd js) @ concat (map snd ws) @ concat (map snd hs)"
    by (simp add: P_def if_distrib [of "map snd"] if_distrib [of concat])
  have 3: "\<forall>p \<in> set P. qmarks (fst p) = length (snd p)"
    using n qsum_pairs [OF j(3)] qsum_pairs [OF w(3)] qsum_pairs [OF h(3)]
    by (auto simp: P_def qmarks_Join qmarks_Sprintf_d split: if_splits)
  have bj: "bind_args lit (strings_Join (map fst js) '' '') (concat (map snd js)) =
      strings_Join (map (\<lambda>p. bind_args lit (fst p) (snd p)) js) '' ''"
    using j(3) by (rule bind_Join) simp
  have bw: "bind_args lit (strings_Join (map fst ws) '' AND '') (concat (map snd ws)) =
      strings_Join (map (\<lambda>p. bind_args lit (fst p) (snd p)) ws) '' AND ''"
    using w(3) by (rule bind_Join) simp
  have bh: "bind_args lit (strings_Join (map fst hs) '' AND '') (concat (map snd hs)) =
      strings_Join (map (\<lambda>p. bind_args lit (fst p) (snd p)) hs) '' AND ''"
    using h(3) by (rule bind_Join) simp
  from o have f: "q_table q' = q_table q" "q_selects q' = q_selects q"
    "q_groupBy q' = q_groupBy q" "q_orderBy q' = q_orderBy q" "q_limit q' = q_limit q"
    "q_offset q' = q_offset q" "q_distinct q' = q_distinct q"
    by (simp_all add: other_fields_def)
  have 4: "Query_buildSQL q' = strings_Join (map (\<lambda>p. bind_args lit (fst p) (snd p)) P) '' ''"
    by (simp add: Query_buildSQL_def Let_def P_def f j(2) w(2) h(2) bj bw bh
        if_distrib [of "map (\<lambda>p. bind_args lit (fst p) (snd p))"])
  have "bind_args lit (strings_Join (map fst P) '' '') (concat (map snd P)) =
      strings_Join (map (\<lambda>p. bind_args lit (fst p) (snd p)) P) '' ''"
    using 3 by (rule bind_Join) simp
  then show ?thesis by (simp only: 1 2 4)
qed


text \<open>The clauses of a sequence of calls, paired with the arguments of their calls.\<close>

lemma match_joins:
  "placeholders_match c \<Longrightarrow> w \<in> set (q_joins (apply_call c NewQuery)) \<Longrightarrow>
   qmarks w = length (call_args c)"
  by (cases c) (auto simp: Query_ops_defs NewQuery_def Let_def split: if_splits)

lemma match_wheres:
  "placeholders_match c \<Longrightarrow> w \<in> set (q_wheres (apply_call c NewQuery)) \<Longrightarrow>
   qmarks w = length (call_args c)"
  by (cases c)
    (auto simp: Query_ops_defs NewQuery_def Let_def qmarks_Join qsum_replicate
      split: if_splits)

lemma match_having:
  "placeholders_match c \<Longrightarrow> w \<in> set (q_having (apply_call c NewQuery)) \<Longrightarrow>
   qmarks w = length (call_args c)"
  by (cases c) (auto simp: Query_ops_defs NewQuery_def Let_def split: if_splits)

lemma args_of_joins:
  "concat (map (\<lambda>w. call_args c) (q_joins (apply_call c NewQuery))) =
   (if emission_rank c = 0 then call_args c else [])"
  by (cases c) (simp_all add: Query_ops_defs NewQuery_def Let_def)

lemma args_of_wheres:
  "concat (map (\<lambda>w. call_args c) (q_wheres (apply_call c NewQuery))) =
   (if emission_rank c = 1 then call_args c else [])"
  by (cases c) (simp_all add: Query_ops_defs NewQuery_def Let_def)

lemma args_of_having:
  "concat (map (\<lambda>w. call_args c) (q_having (apply_call c NewQuery))) =
   (if emission_rank c = 2 then call_args c else [])"
  by (cases c) (simp_all add: Query_ops_defs NewQuery_def Let_def)

lemma group_args:
  assumes "\<And>c. concat (map (\<lambda>w. g c) (F c)) = (if P c then g c else [])"
  shows "concat (map snd (concat (map (\<lambda>c. map (\<lambda>w. (w, g c)) (F c)) cs))) =
     concat (map g (filter P cs))"
  by (induction cs) (simp_all add: o_def assms)

lemma text_binds_emission_args:
  assumes m: "list_all placeholders_match cs"
  shows "bind_args lit (Query_buildSQL (run_calls NewQuery cs)) (emission_args cs) =
     Query_buildSQL (run_calls NewQuery (map (inline_args lit) cs))"
proof -
  define js where
    "js = concat (map (\<lambda>c. map (\<lambda>w. (w, call_args c)) (q_joins (apply_call c NewQuery))) cs)"
  define ws where
    "ws = concat (map (\<lambda>c. map (\<lambda>w. (w, call_args c)) (q_wheres (apply_call c NewQuery))) cs)"
  define hs where
    "hs = concat (map (\<lambda>c. map (\<lambda>w. (w, call_args c)) (q_having (apply_call c NewQuery))) cs)"
  let ?q = "run_calls NewQuery cs"
  let ?q' = "run_calls NewQuery (map (inline_args lit) cs)"
  have inv: "placeholders_inv ?q" using inv_NewQuery m by (rule inv_run_calls)
  have o: "other_fields ?q' = other_fields ?q" by (rule other_run_inline) simp
  have j1: "q_joins ?q = map fst js"
    by (simp add: joins_run_calls js_def NewQuery_def map_concat o_def)
  have j2: "q_joins ?q' = map (\<lambda>p. bind_args lit (fst p) (snd p)) js"
    by (simp add: joins_run_calls js_def map_concat o_def joins_inline)
      (simp add: NewQuery_def)
  have j3: "\<forall>p \<in> set js. qmarks (fst p) = length (snd p)"
    using m by (auto simp: js_def list_all_iff match_joins)
  have j4: "concat (map snd js) = concat (map call_args (filter (\<lambda>c. emission_rank c = 0) cs))"
    unfolding js_def by (rule group_args) (rule args_of_joins)
  have w1: "q_wheres ?q = map fst ws"
    by (simp add: wheres_run_calls ws_def NewQuery_def map_concat o_def)
  have w2: "q_wheres ?q' = map (\<lambda>p. bind_args lit (fst p) (snd p)) ws"
    by (simp add: wheres_run_calls ws_def map_concat o_def wheres_inline)
      (simp add: NewQuery_def)
  have w3: "\<forall>p \<in> set ws. qmarks (fst p) = length (snd p)"
    using m by (auto simp: ws_def list_all_iff match_wheres)
  have w4: "concat (map snd ws) = concat (map call_args (filter (\<lambda>c. emission_rank c = 1) cs))"
    unfolding ws_def by (rule group_args) (rule args_of_wheres)
  have h1: "q_having ?q = map fst hs"
    by (simp add: having_run_calls hs_def NewQuery_def map_concat o_def)
  have h2: "q_having ?q' = map (\<lambda>p. bind_args lit (fst p) (snd p)) hs"
    by (simp add: having_run_calls hs_def map_concat o_def having_inline)
      (simp add: NewQuery_def)
  have h3: "\<forall>p \<in> set hs. qmarks (fst p) = length (snd p)"
    using m by (auto simp: hs_def list_all_iff match_having)
  have h4: "concat (map snd hs) = concat (map call_args (filter (\<lambda>c. emission_rank c = 2) cs))"
    unfolding hs_def by (rule group_args) (rule args_of_having)
  from inv have n: "qmarks (q_table ?q) = 0" "qsum (q_selects ?q) = 0"
    "qsum (q_groupBy ?q) = 0" "qsum (q_orderBy ?q) = 0"
    by (simp_all add: placeholders_inv_def)
  have "bind_args lit (Query_buildSQL ?q)
      (concat (map snd js) @ concat (map snd ws) @ concat (map snd hs)) = Query_buildSQL ?q'"
    using o n j1 j2 j3 w1 w2 w3 h1 h2 h3 by (rule bind_buildSQL)
  then show ?thesis by (simp only: j4 w4 h4 emission_args_def)
qed

text \<open>
  C1, as the specification states it, fails twice. A join with an argument that is called
  after a predicate with an argument puts its placeholder before the predicate's, and
  its argument after: the arguments come as \<open>1, 2\<close>, the placeholders ask for \<open>2, 1\<close>, so
  that the connection binds \<open>u.id = 1\<close> and \<open>a = 2\<close> where the calls said \<open>u.id = 2\<close>
  and \<open>a = 1\<close>. And a predicate without a placeholder that is given an argument leaves
  one argument for no marker.
\<close>

theorem join_after_where_counterexample:
  "Query_buildSQL (run_calls NewQuery
      [CTable ''t'', CWhere ''a = ?'' [Val t_int (PInt 1)],
       CJoin ''u'' ''u.id = ?'' [Val t_int (PInt 2)]]) =
     ''SELECT * FROM t JOIN u ON u.id = ? WHERE a = ?''
   \<and> q_args (run_calls NewQuery
      [CTable ''t'', CWhere ''a = ?'' [Val t_int (PInt 1)],
       CJoin ''u'' ''u.id = ?'' [Val t_int (PInt 2)]]) = [Val t_int (PInt 1), Val t_int (PInt 2)]
   \<and> emission_args
      [CTable ''t'', CWhere ''a = ?'' [Val t_int (PInt 1)],
       CJoin ''u'' ''u.id = ?'' [Val t_int (PInt 2)]] = [Val t_int (PInt 2), Val t_int (PInt 1)]
   \<and> q_args (run_calls NewQuery
      [CTable ''t'', CWhere ''a = ?'' [Val t_int (PInt 1)],
       CJoin ''u'' ''u.id = ?'' [Val t_int (PInt 2)]]) \<noteq>
     emission_args
      [CTable ''t'', CWhere ''a = ?'' [Val t_int (PInt 1)],
       CJoin ''u'' ''u.id = ?'' [Val t_int (PInt 2)]]
   \<and> bind_args example_lit
       (Query_buildSQL (run_calls NewQuery
          [CTable ''t'', CWhere ''a = ?'' [Val t_int (PInt 1)],
           CJoin ''u'' ''u.id = ?'' [Val t_int (PInt 2)]]))
       (q_args (run_calls NewQuery
          [CTable ''t'', CWhere ''a = ?'' [Val t_int (PInt 1)],
           CJoin ''u'' ''u.id = ?'' [Val t_int (PInt 2)]])) =
     ''SELECT * FROM t JOIN u ON u.id = 1 WHERE a = 2''
   \<and> Query_buildSQL (run_calls NewQuery (map (inline_args example_lit)
      [CTable ''t'', CWhere ''a = ?'' [Val t_int (PInt 1)],
       CJoin ''u'' ''u.id = ?'' [Val t_int (PInt 2)]])) =
     ''SELECT * FROM t JOIN u ON u.id = 2 WHERE a = 1''
   \<and> Query_buildSQL (run_calls NewQuery [CTable ''t'', CWhere ''a = 1'' [Val t_int (PInt 5)]]) =
     ''SELECT * FROM t WHERE a = 1''
   \<and> length (q_args (run_calls NewQuery [CTable ''t'', CWhere ''a = 1'' [Val t_int (PInt 5)]])) \<noteq>
     qmarks (Query_buildSQL
       (run_calls NewQuery [CTable ''t'', CWhere ''a = 1'' [Val t_int (PInt 5)]]))"
  by (simp add: run_calls_def emission_args_def Query_buildSQL_def Query_Table_def
      Query_Where_def Query_Join_def NewQuery_def example_lit_def t_int_def Sprintf_d_def
      digits.simps digit_char_def)

text \<open>
  C1, amended: when every call carries as many arguments as its own text has placeholder
  markers, and the texts that carry no arguments have no marker, the builder holds as
  many arguments as the text of \<open>buildSQL\<close> has markers, in whatever order the methods
  were called. The arguments stand in the order of the calls. The markers of the text of
  \<open>buildSQL\<close>, from left to right, are those of the joins, then of the predicates, then
  of the \<open>HAVING\<close> conditions, each group in the order of the calls: binding the
  arguments in this order to the text gives the statement of the same calls with the
  arguments of every call written into the text of that call. So when the calls with
  arguments were made in this order (joins, then predicates, then \<open>HAVING\<close> conditions),
  the arguments that the builder holds are in the order of the placeholders of the text,
  and binding them gives every placeholder the argument of its own call.
\<close>

theorem args_match_placeholders:
  assumes "list_all placeholders_match cs"
  shows "length (q_args (run_calls NewQuery cs)) = qmarks (Query_buildSQL (run_calls NewQuery cs))
    \<and> q_args (run_calls NewQuery cs) = concat (map call_args cs)
    \<and> bind_args lit (Query_buildSQL (run_calls NewQuery cs)) (emission_args cs) =
        Query_buildSQL (run_calls NewQuery (map (inline_args lit) cs))
    \<and> (in_emission_order cs \<longrightarrow>
          q_args (run_calls NewQuery cs) = emission_args cs
          \<and> bind_args lit (Query_buildSQL (run_calls NewQuery cs))
               (q_args (run_calls NewQuery cs)) =
             Query_buildSQL (run_calls NewQuery (map (inline_args lit) cs)))"
proof (intro conjI impI)
  show "length (q_args (run_calls NewQuery cs)) =
      qmarks (Query_buildSQL (run_calls NewQuery cs))"
    using inv_NewQuery assms by (intro inv_count inv_run_calls)
  show a: "q_args (run_calls NewQuery cs) = concat (map call_args cs)"
    by (simp add: args_run_calls NewQuery_def)
  show t: "bind_args lit (Query_buildSQL (run_calls NewQuery cs)) (emission_args cs) =
      Query_buildSQL (run_calls NewQuery (map (inline_args lit) cs))"
    using assms by (rule text_binds_emission_args)
  assume "in_emission_order cs"
  then have e: "emission_args cs = concat (map call_args cs)"
    by (rule emission_args_in_order)
  with a show "q_args (run_calls NewQuery cs) = emission_args cs" by simp
  with t show "bind_args lit (Query_buildSQL (run_calls NewQuery cs))
      (q_args (run_calls NewQuery cs)) =
      Query_buildSQL (run_calls NewQuery (map (inline_args lit) cs))"
    by simp
qed

theorem args_match_placeholders_witness:
  "Query_buildSQL (run_calls NewQuery
      [CTable ''orders'', CJoin ''users'' ''users.id = orders.uid AND users.age > ?''
         [Val t_int (PInt 18)],
       CWhereIn ''status'' [Val t_string (PString ''new''), Val t_string (PString ''paid'')],
       CGroupBy [''uid''], CHaving ''SUM(total) > ?'' [Val t_int (PInt 100)], CLimit 10]) =
     ''SELECT * FROM orders JOIN users ON users.id = orders.uid AND users.age > ? WHERE status IN (?, ?) GROUP BY uid HAVING SUM(total) > ? LIMIT 10''
   \<and> q_args (run_calls NewQuery
      [CTable ''orders'', CJoin ''users'' ''users.id = orders.uid AND users.age > ?''
         [Val t_int (PInt 18)],
       CWhereIn ''status'' [Val t_string (PString ''new''), Val t_string (PString ''paid'')],
       CGroupBy [''uid''], CHaving ''SUM(total) > ?'' [Val t_int (PInt 100)], CLimit 10]) =
     [Val t_int (PInt 18), Val t_string (PString ''new''), Val t_string (PString ''paid''),
      Val t_int (PInt 100)]
   \<and> emission_args
      [CTable ''orders'', CJoin ''users'' ''users.id = orders.uid AND users.age > ?''
         [Val t_int (PInt 18)],
       CWhereIn ''status'' [Val t_string (PString ''new''), Val t_string (PString ''paid'')],
       CGroupBy [''uid''], CHaving ''SUM(total) > ?'' [Val t_int (PInt 100)], CLimit 10] =
     [Val t_int (PInt 18), Val t_string (PString ''new''), Val t_string (PString ''paid''),
      Val t_int (PInt 100)]
   \<and> qmarks (Query_buildSQL (run_calls NewQuery
      [CTable ''orders'', CJoin ''users'' ''users.id = orders.uid AND users.age > ?''
         [Val t_int (PInt 18)],
       CWhereIn ''status'' [Val t_string (PString ''new''), Val t_string (PString ''paid'')],
       CGroupBy [''uid''], CHaving ''SUM(total) > ?'' [Val t_int (PInt 100)], CLimit 10])) = 4
   \<and> Query_buildSQL (run_calls NewQuery (map (inline_args example_lit)
      [CTable ''orders'', CJoin ''users'' ''users.id = orders.uid AND users.age > ?''
         [Val t_int (PInt 18)],
       CWhereIn ''status'' [Val t_string (PString ''new''), Val t_string (PString ''paid'')],
       CGroupBy [''uid''], CHaving ''SUM(total) > ?'' [Val t_int (PInt 100)], CLimit 10])) =
     ''SELECT * FROM orders JOIN users ON users.id = orders.uid AND users.age > 18 WHERE status IN ('new', 'paid') GROUP BY uid HAVING SUM(total) > 100 LIMIT 10''"
proof -
  let ?cs = "[CTable ''orders'', CJoin ''users'' ''users.id = orders.uid AND users.age > ?''
         [Val t_int (PInt 18)],
       CWhereIn ''status'' [Val t_string (PString ''new''), Val t_string (PString ''paid'')],
       CGroupBy [''uid''], CHaving ''SUM(total) > ?'' [Val t_int (PInt 100)], CLimit 10]"
  have m: "list_all placeholders_match ?cs" by simp
  have o: "in_emission_order ?cs" by (simp add: in_emission_order_def)
  have a: "q_args (run_calls NewQuery ?cs) =
     [Val t_int (PInt 18), Val t_string (PString ''new''), Val t_string (PString ''paid''),
      Val t_int (PInt 100)]"
    by (simp add: args_run_calls NewQuery_def)
  have s: "Query_buildSQL (run_calls NewQuery ?cs) =
     ''SELECT * FROM orders JOIN users ON users.id = orders.uid AND users.age > ? WHERE status IN (?, ?) GROUP BY uid HAVING SUM(total) > ? LIMIT 10''"
    by (simp add: run_calls_def Query_buildSQL_def Query_Table_def Query_Join_def
        Query_WhereIn_def Query_GroupBy_def Query_Having_def Query_Limit_def NewQuery_def
        Sprintf_d_def digits.simps digit_char_def Let_def)
  have b: "bind_args example_lit
     ''SELECT * FROM orders JOIN users ON users.id = orders.uid AND users.age > ? WHERE status IN (?, ?) GROUP BY uid HAVING SUM(total) > ? LIMIT 10''
     [Val t_int (PInt 18), Val t_string (PString ''new''), Val t_string (PString ''paid''),
      Val t_int (PInt 100)] =
     ''SELECT * FROM orders JOIN users ON users.id = orders.uid AND users.age > 18 WHERE status IN ('new', 'paid') GROUP BY uid HAVING SUM(total) > 100 LIMIT 10''"
    by (simp add: example_lit_def t_int_def t_string_def Sprintf_d_def digits.simps
        digit_char_def)
  from args_match_placeholders [OF m, of example_lit] o a s b show ?thesis by simp
qed

subsection \<open>Query builder: terminal operations\<close>

text \<open>A destination that is a \<open>nil\<close> pointer to the struct \<open>User\<close> passes the tests of
  \<open>scanRow\<close>: the row is read, and \<open>scanRow\<close> panics at the first column. When the row
  cannot be read, \<open>scanRow\<close> returns that error.\<close>

lemma scanRow_nil_destination:
  "DB_scanRow one_row (example_user\<lparr>m_shape := NilPointerTo (m_shape example_user)\<rparr>) =
     Panic ''reflect: call of reflect.Value.FieldByName on zero Value''
   \<and> DB_scanRow failed_row (example_user\<lparr>m_shape := NilPointerTo (m_shape example_user)\<rparr>) =
     Return (Some ''failed to scan row: connection refused'')"
  by (simp add: DB_scanRow_def example_user_def one_row_def failed_row_def
      Mapper_ParseStruct_def Mapper_getTableName_def NewMapper_def Mapper_parseField_def
      Tag_Get_def Let_def t_uint32_def t_string_def t_uint8_def)

text \<open>
  C2: \<open>Count\<close> sends the statement of the builder with the single projection \<open>COUNT(*)\<close>
  and the arguments of the builder to the connection, returns, and leaves the builder as
  it was, its projection list included, whatever the connection answers.
\<close>

theorem Count_restores_projections:
  "fst (Query_Count drv q c) = q
   \<and> q_selects (fst (Query_Count drv q c)) = q_selects q
   \<and> fst (snd (Query_Count drv q c)) =
       fst (QueryRowContext drv c
              (Query_buildSQL (q\<lparr>q_selects := [''COUNT(*)'']\<rparr>)) (q_args q))
   \<and> (\<exists>n err. snd (snd (Query_Count drv q c)) = Return (n, err))"
  by (simp add: Query_Count_def DB_QueryRow_def DB_scanRow_def ptr_to_int64_def Let_def
      split: prod.splits)

theorem Count_restores_projections_witness:
  "q_selects
     (fst (Query_Count (recording_driver failed_row (Inr (0, 0)))
        (Query_Where ''age > ?'' [Val t_int (PInt 20)]
          (Query_Select [''id'', ''name''] (Query_Table ''users'' NewQuery))) [])) =
     [''id'', ''name'']
   \<and> fst (snd (Query_Count (recording_driver failed_row (Inr (0, 0)))
        (Query_Where ''age > ?'' [Val t_int (PInt 20)]
          (Query_Select [''id'', ''name''] (Query_Table ''users'' NewQuery))) [])) =
     [(''SELECT COUNT(*) FROM users WHERE age > ?'', [Val t_int (PInt 20)])]"
  using Count_restores_projections
    [of "recording_driver failed_row (Inr (0, 0))"
        "Query_Where ''age > ?'' [Val t_int (PInt 20)]
          (Query_Select [''id'', ''name''] (Query_Table ''users'' NewQuery))" "[]"]
  by (simp add: recording_driver_def Query_Where_def Query_Select_def Query_Table_def
      NewQuery_def Query_buildSQL_def)

text \<open>\<open>Count\<close> returns the error of \<open>scanRow\<close> for every connection: its destination is
  not a pointer to a struct.\<close>

lemma Count_always_fails:
  "snd (snd (Query_Count drv q c)) = Return (0, Some ''result must be a pointer to struct'')"
  by (simp add: Query_Count_def DB_QueryRow_def DB_scanRow_def ptr_to_int64_def Let_def
      split: prod.splits)

text \<open>\<open>Exists\<close>, for every builder and every connection, leaves the builder with the
  projection \<open>1\<close> and the limit \<open>1\<close>, and returns \<open>false\<close> with the error of \<open>scanRow\<close>.\<close>

lemma Exists_never_restores:
  "fst (Query_Exists drv q c) = q\<lparr>q_selects := [''1''], q_limit := 1\<rparr>
   \<and> snd (snd (Query_Exists drv q c)) =
       Return (False, Some ''result must be a pointer to struct'')"
  by (simp add: Query_Exists_def DB_QueryRow_def DB_scanRow_def ptr_to_int_def Let_def
      split: prod.splits)

text \<open>
  C5 at a failing input: the builder selects \<open>id\<close> and \<open>name\<close> from \<open>users\<close>, and the
  connection answers a row without an error. \<open>Exists\<close> sends \<open>SELECT 1 FROM users LIMIT 1\<close>,
  returns \<open>false\<close> with the error of \<open>scanRow\<close>, and leaves the builder with the
  projection \<open>1\<close>.
\<close>

theorem Exists_keeps_constant_projection:
  "Query_Exists (recording_driver one_row (Inr (0, 0)))
     (Query_Select [''id'', ''name''] (Query_Table ''users'' NewQuery)) [] =
     (Query_Limit 1 (Query_Select [''1''] (Query_Table ''users'' NewQuery)),
      [(''SELECT 1 FROM users LIMIT 1'', [])],
      Return (False, Some ''result must be a pointer to struct''))
   \<and> q_selects (fst (Query_Exists (recording_driver one_row (Inr (0, 0)))
        (Query_Select [''id'', ''name''] (Query_Table ''users'' NewQuery)) [])) = [''1'']"
  by (simp add: Query_Exists_def DB_QueryRow_def DB_scanRow_def recording_driver_def
      Query_Table_def Query_Select_def NewQuery_def Query_Limit_def Query_buildSQL_def
      Sprintf_d_def digits.simps digit_char_def ptr_to_int_def Let_def)

text \<open>
  What \<open>Last\<close> does to an entry of \<open>orderBy\<close>. A text without a space that occurs in an
  entry \<open>f direction\<close> occurs in \<open>f\<close> or in the direction. So the direction of an entry is
  inverted when its field contains neither \<open>ASC\<close> nor \<open>DESC\<close> (for an ascending entry:
  when it does not contain \<open>ASC\<close>), and an entry that contains neither gets \<open>DESC\<close>.
\<close>

lemma HasPrefix_across_space:
  "strings_HasPrefix (xs @ CHR '' '' # s) p \<Longrightarrow> CHR '' '' \<notin> set p \<Longrightarrow> strings_HasPrefix xs p"
  by (induction xs p rule: strings_HasPrefix.induct) auto

lemma HasPrefix_space:
  "p \<noteq> [] \<Longrightarrow> CHR '' '' \<notin> set p \<Longrightarrow> \<not> strings_HasPrefix (CHR '' '' # s) p"
  by (cases p) auto

lemma Contains_after_space:
  assumes "\<not> strings_Contains f p" and "CHR '' '' \<notin> set p" and "p \<noteq> []"
  shows "strings_Contains (f @ CHR '' '' # s) p = strings_Contains s p"
  using assms
proof (induction f)
  case Nil
  then show ?case using HasPrefix_space [of p s] by simp
next
  case (Cons c cs)
  from Cons.prems have a: "\<not> strings_HasPrefix (c # cs) p" and b: "\<not> strings_Contains cs p"
    by simp_all
  from a Cons.prems(2) have "\<not> strings_HasPrefix ((c # cs) @ CHR '' '' # s) p"
    using HasPrefix_across_space by blast
  with Cons.IH [OF b Cons.prems(2,3)] show ?case by simp
qed

lemma Replace1_after_space:
  assumes "\<not> strings_Contains f p" and "CHR '' '' \<notin> set p" and "p \<noteq> []"
  shows "strings_Replace1 (f @ CHR '' '' # s) p n = f @ CHR '' '' # strings_Replace1 s p n"
  using assms
proof (induction f)
  case Nil
  then show ?case using HasPrefix_space [of p s] by simp
next
  case (Cons c cs)
  from Cons.prems have a: "\<not> strings_HasPrefix (c # cs) p" and b: "\<not> strings_Contains cs p"
    by simp_all
  from a Cons.prems(2) have "\<not> strings_HasPrefix ((c # cs) @ CHR '' '' # s) p"
    using HasPrefix_across_space by blast
  with Cons.IH [OF b Cons.prems(2,3)] show ?case by simp
qed

lemma invert_order_ASC:
  assumes "\<not> strings_Contains f ''ASC''"
  shows "invert_order (f @ '' ASC'') = f @ '' DESC''"
  using Contains_after_space [OF assms, of "''ASC''"]
    Replace1_after_space [OF assms, of "''ASC''" "''DESC''"]
  by (simp add: invert_order_def)

lemma invert_order_DESC:
  assumes "\<not> strings_Contains f ''ASC''" and "\<not> strings_Contains f ''DESC''"
  shows "invert_order (f @ '' DESC'') = f @ '' ASC''"
  using Contains_after_space [OF assms(1), of "''DESC''"]
    Contains_after_space [OF assms(2), of "''DESC''"]
    Replace1_after_space [OF assms(2), of "''DESC''" "''ASC''"]
  by (simp add: invert_order_def)

lemma invert_order_no_direction:
  assumes "\<not> strings_Contains e ''ASC''" and "\<not> strings_Contains e ''DESC''"
  shows "invert_order e = e @ '' DESC''"
  using assms by (simp add: invert_order_def)

text \<open>When \<open>Last\<close> returns, with an error or without, the builder has its \<open>orderBy\<close> back,
  and the limit \<open>1\<close>. When \<open>Get\<close> panics, here for a destination struct without fields,
  the builder keeps the inverted order: the assignment that restores it is not deferred.\<close>

lemma Last_restores_on_return:
  assumes "snd (snd (Query_Last drv q c result)) = Return err"
  shows "fst (Query_Last drv q c result) = q\<lparr>q_limit := 1\<rparr>"
  using assms
  by (auto simp: Query_Last_def Query_Get_def Let_def split: prod.splits outcome.splits)

lemma Last_panic_keeps_inverted_order:
  "fst (Query_Last drv (Query_OrderByAsc ''created'' NewQuery) c example_empty) =
     (Query_OrderByDesc ''created'' NewQuery)\<lparr>q_limit := 1\<rparr>
   \<and> snd (snd (Query_Last drv (Query_OrderByAsc ''created'' NewQuery) c example_empty)) =
     Panic ''reflect: Field index out of bounds''"
  by (simp add: Query_Last_def Query_Get_def DB_QueryRow_def DB_scanRow_def
      Query_OrderByAsc_def Query_OrderByDesc_def NewQuery_def invert_order_def
      example_empty_def Mapper_ParseStruct_def Mapper_getTableName_def Let_def
      split: prod.splits)

text \<open>Without an order, \<open>Last\<close> orders by the column \<open>id\<close>, whatever the primary key of
  the destination is.\<close>

lemma Last_default_is_literal_id:
  "fst (snd (Query_Last (recording_driver one_row (Inr (0, 0)))
     (Query_Table ''sessions'' NewQuery) [] example_session)) =
     [(''SELECT * FROM sessions ORDER BY id DESC LIMIT 1'', [])]"
  by (simp add: Query_Last_def Query_Get_def DB_QueryRow_def DB_scanRow_def
      recording_driver_def Query_Table_def NewQuery_def
      Query_buildSQL_def Sprintf_d_def digits.simps digit_char_def
      example_session_def t_string_def one_row_def
      Mapper_ParseStruct_def Mapper_getTableName_def NewMapper_def
      Mapper_parseField_def Tag_Get_def Let_def)

text \<open>
  C3 at a failing input: the builder orders by \<open>ASCII_CODE DESC\<close>. \<open>Last\<close> replaces the
  first \<open>ASC\<close> of the entry, which stands in the name of the field, and sends
  \<open>ORDER BY DESCII_CODE DESC\<close>, where the inverted order is \<open>ASCII_CODE ASC\<close>.
\<close>

theorem Last_replaces_inside_field_name:
  "Query_Last (recording_driver one_row (Inr (0, 0)))
     (Query_OrderByDesc ''ASCII_CODE'' (Query_Table ''t'' NewQuery)) [] example_user =
     (Query_Limit 1 (Query_OrderByDesc ''ASCII_CODE'' (Query_Table ''t'' NewQuery)),
      [(''SELECT * FROM t ORDER BY DESCII_CODE DESC LIMIT 1'', [])], Return None)"
  by (simp add: Query_Last_def Query_Get_def DB_QueryRow_def DB_scanRow_def
      recording_driver_def Query_OrderByDesc_def Query_Table_def NewQuery_def Query_Limit_def
      invert_order_def Query_buildSQL_def Sprintf_d_def digits.simps digit_char_def
      example_user_def t_uint32_def t_string_def t_uint8_def one_row_def
      Mapper_ParseStruct_def Mapper_getTableName_def NewMapper_def
      Mapper_parseField_def Tag_Get_def Let_def)

lemma values_are_snd: "(\<lambda>(field :: string, v :: gval). v) = snd"
  by auto

text \<open>
  C7: \<open>Update\<close> returns the validation error, and sends nothing to the connection, exactly
  when the map is empty. Otherwise it sends \<open>UPDATE\<close> with the table, the assignments and
  the predicates, and the arguments are the values of the assignments followed by the
  arguments of the builder.
\<close>

theorem Update_validation_and_argument_order:
  "(data = [] \<longrightarrow>
      Query_Update drv data q c =
        (c, \<lparr>LastInsertID = 0, RowsAffected = 0\<rparr>, Some ''no data to update''))
   \<and> (data \<noteq> [] \<longrightarrow>
      Query_Update drv data q c =
        DB_Exec drv c
          (''UPDATE '' @ q_table q @ '' SET ''
           @ strings_Join (map (\<lambda>(field, v). field @ '' = ?'') data) '', ''
           @ (if q_wheres q = [] then []
              else '' WHERE '' @ strings_Join (q_wheres q) '' AND ''))
          (map snd data @ q_args q))
   \<and> (snd (snd (Query_Update drv data q c)) = Some ''no data to update'' \<longleftrightarrow> data = [])"
proof (intro conjI impI)
  assume "data = []"
  then show "Query_Update drv data q c =
        (c, \<lparr>LastInsertID = 0, RowsAffected = 0\<rparr>, Some ''no data to update'')"
    by (simp add: Query_Update_def)
next
  assume "data \<noteq> []"
  then show "Query_Update drv data q c =
        DB_Exec drv c
          (''UPDATE '' @ q_table q @ '' SET ''
           @ strings_Join (map (\<lambda>(field, v). field @ '' = ?'') data) '', ''
           @ (if q_wheres q = [] then []
              else '' WHERE '' @ strings_Join (q_wheres q) '' AND ''))
          (map snd data @ q_args q)"
    by (simp add: Query_Update_def Let_def values_are_snd)
next
  show "snd (snd (Query_Update drv data q c)) = Some ''no data to update'' \<longleftrightarrow> data = []"
    by (cases "ExecContext drv c
          (''UPDATE '' @ q_table q @ '' SET ''
           @ strings_Join (map (\<lambda>(field, v). field @ '' = ?'') data) '', ''
           @ (if q_wheres q = [] then []
              else '' WHERE '' @ strings_Join (q_wheres q) '' AND ''))
          (map snd data @ q_args q)")
       (auto simp: Query_Update_def DB_Exec_def Let_def values_are_snd
          split: sum.splits prod.splits)
qed

theorem Update_validation_and_argument_order_witness:
  "Query_Update (recording_driver one_row (Inr (0, 1)))
     [(''name'', Val t_string (PString ''Bob'')), (''age'', Val t_int (PInt 41))]
     (Query_Join ''t'' ''t.k = ?'' [Val t_int (PInt 3)]
       (Query_Where ''id = ?'' [Val t_int (PInt 7)] (Query_Table ''users'' NewQuery))) [] =
     ([(''UPDATE users SET name = ?, age = ? WHERE id = ?'',
        [Val t_string (PString ''Bob''), Val t_int (PInt 41), Val t_int (PInt 7),
         Val t_int (PInt 3)])],
      \<lparr>LastInsertID = 0, RowsAffected = 1\<rparr>, None)
   \<and> Query_Update (recording_driver one_row (Inr (0, 1))) []
     (Query_Where ''id = ?'' [Val t_int (PInt 7)] (Query_Table ''users'' NewQuery)) [] =
     ([], \<lparr>LastInsertID = 0, RowsAffected = 0\<rparr>, Some ''no data to update'')"
  using Update_validation_and_argument_order
    [of "[(''name'', Val t_string (PString ''Bob'')), (''age'', Val t_int (PInt 41))]"
        "recording_driver one_row (Inr (0, 1))"
        "Query_Join ''t'' ''t.k = ?'' [Val t_int (PInt 3)]
          (Query_Where ''id = ?'' [Val t_int (PInt 7)] (Query_Table ''users'' NewQuery))" "[]"]
    Update_validation_and_argument_order
    [of "[]" "recording_driver one_row (Inr (0, 1))"
        "Query_Where ''id = ?'' [Val t_int (PInt 7)] (Query_Table ''users'' NewQuery)" "[]"]
  by (simp add: DB_Exec_def recording_driver_def Query_Join_def Query_Where_def
      Query_Table_def NewQuery_def)

subsection \<open>Mapper: schema derivation\<close>












text \<open>The create-table text of the descriptor of the example.\<close>

lemma BuildCreateTableSQL_example:
  "Mapper_BuildCreateTableSQL ord example_user_info =
     ''CREATE TABLE IF NOT EXISTS `users` ('' @ [CHR 0x0A]
     @ ''  `id` UInt32 PRIMARY KEY,'' @ [CHR 0x0A]
     @ ''  `name` String,'' @ [CHR 0x0A]
     @ ''  `Age` UInt32'' @ [CHR 0x0A]
     @ '') ENGINE = MergeTree''"
  by (simp add: example_user_info_def Mapper_BuildCreateTableSQL_def columnDef_def)

text \<open>
  C10: for a struct without fields whose type does not implement \<open>Model\<close>,
  \<open>ParseStruct\<close> panics in \<open>getTableName\<close>, at \<open>typ.Field(0)\<close>; it returns no error value
  and stores nothing in the cache.
\<close>

theorem ParseStruct_zero_fields_panics:
  "m_shape mdl = Struct typName [] \<Longrightarrow> m_TableName mdl = None \<Longrightarrow>
   Mapper_ParseStruct m mdl = (m, Panic ''reflect: Field index out of bounds'')"
  by (simp add: Mapper_ParseStruct_def Mapper_getTableName_def)

theorem ParseStruct_zero_fields_panics_witness:
  "Mapper_ParseStruct NewMapper example_empty =
     (NewMapper, Panic ''reflect: Field index out of bounds'')"
  using ParseStruct_zero_fields_panics [of example_empty "''Empty''" NewMapper]
  by (simp add: example_empty_def)

subsection \<open>Mapper: writing a field\<close>

lemma switch_unrecognized:
  assumes "\<not> recognized_combination fieldType (TypeOf v)"
  shows "SetFieldValue_switch lib fieldType v = None"
proof (cases fieldType)
  case (GoType n k)
  show ?thesis
  proof (cases v)
    case NilValue
    with GoType assms show ?thesis
      by (cases k) (simp_all add: recognized_combination_def SetFieldValue_switch_def)
  next
    case (Val t p)
    with GoType assms show ?thesis
      by (cases k)
        (simp_all add: recognized_combination_def SetFieldValue_switch_def TypeOf_def
          split: payload.split)
  qed
next
  case (GoSlice n elem)
  then show ?thesis by (simp add: SetFieldValue_switch_def)
next
  case (GoArray n elem)
  then show ?thesis by (simp add: SetFieldValue_switch_def)
qed

text \<open>
  C9: for a pointer to a struct and a field of it that can be set, \<open>SetFieldValue\<close>
  returns no error, whatever the value is; and when it has no case for the type of the
  field with the type of the value, it leaves the struct as it was.
\<close>

theorem SetFieldValue_unrecognized_silent:
  assumes "m_ptr mdl" and "m_shape mdl = Struct n fs"
    and "find (\<lambda>f. f_Name f = fieldName) fs = Some field" and "f_Exported field"
  shows "snd (Mapper_SetFieldValue lib mdl fieldName v) = None
    \<and> (\<not> recognized_combination (f_Type field) (TypeOf v) \<longrightarrow>
         fst (Mapper_SetFieldValue lib mdl fieldName v) = mdl)"
proof -
  have a: "snd (Mapper_SetFieldValue lib mdl fieldName v) = None"
    using assms by (simp add: Mapper_SetFieldValue_def split: option.splits)
  have b: "fst (Mapper_SetFieldValue lib mdl fieldName v) = mdl"
    if u: "\<not> recognized_combination (f_Type field) (TypeOf v)"
  proof -
    from u have "same_type_payload (f_Type field) v = None"
      by (auto simp: recognized_combination_def same_type_payload_def TypeOf_def
          split: gval.splits)
    moreover from u have "SetFieldValue_switch lib (f_Type field) v = None"
      by (rule switch_unrecognized)
    ultimately show ?thesis
      using assms by (simp add: Mapper_SetFieldValue_def)
  qed
  from a b show ?thesis by blast
qed

theorem SetFieldValue_unrecognized_silent_witness:
  "\<forall>lib. Mapper_SetFieldValue lib example_user ''Age'' (Val t_float64 (PFloat64 0x4045000000000000)) =
     (example_user, None)"
proof
  fix lib
  have u: "\<not> recognized_combination t_uint8 (TypeOf (Val t_float64 (PFloat64 0x4045000000000000)))"
    by (simp add: recognized_combination_def TypeOf_def t_uint8_def t_float64_def
        t_int64_def t_int32_def t_int16_def t_int8_def t_uint64_def t_uint32_def
        t_uint16_def t_string_def)
  from SetFieldValue_unrecognized_silent
    [of example_user "''User''" _ "''Age''"
        "\<lparr>f_Name = ''Age'', f_Type = t_uint8, f_Tag = [], f_Exported = True, f_Value = PInt 30\<rparr>"
        lib "Val t_float64 (PFloat64 0x4045000000000000)"] u
  show "Mapper_SetFieldValue lib example_user ''Age'' (Val t_float64 (PFloat64 0x4045000000000000)) =
     (example_user, None)"
    by (simp add: example_user_def prod_eq_iff)
qed

end
